theory Spec2Isabelle
  imports Main "HOL-Library.AList"
begin

section \<open>Go values used by the package\<close>

text \<open>
  The package \<^verbatim>\<open>rack\<close> (rack.go, context.go, processor.go, resolver.go, error.go)
  is embedded as total HOL functions. A Go \<^verbatim>\<open>string\<close> is a byte sequence, here a
  \<^typ>\<open>string\<close>.

  A Go map is modelled by an association list. A \<^verbatim>\<open>range\<close> loop over a map
  visits the entries in an order the runtime chooses; the order of the list is that
  order, so a statement about every list covers every order. A map that may be
  \<^verbatim>\<open>nil\<close> is an \<open>option\<close> of such a list, \<open>None\<close> being the nil map.
  Reading a nil map (indexing it, ranging over it) behaves like reading an empty one.
\<close>

definition entries :: "('k \<times> 'v) list option \<Rightarrow> ('k \<times> 'v) list" where
  "entries m = (case m of None \<Rightarrow> [] | Some al \<Rightarrow> al)"

text \<open>\<^verbatim>\<open>m[k]\<close> for a map of strings: the zero value (the empty string) when absent.\<close>

definition index_string :: "(string \<times> string) list \<Rightarrow> string \<Rightarrow> string" where
  "index_string m k = (case map_of m k of None \<Rightarrow> [] | Some v \<Rightarrow> v)"

text \<open>\<^verbatim>\<open>m[k]\<close> for a map of string slices: the nil slice (no values) when absent.\<close>

definition index_values :: "(string \<times> string list) list \<Rightarrow> string \<Rightarrow> string list" where
  "index_values m k = (case map_of m k of None \<Rightarrow> [] | Some vs \<Rightarrow> vs)"

subsection \<open>strings.Split on a one-byte separator\<close>

text \<open>
  \<^verbatim>\<open>strings.Split(s, ",")\<close>: the pieces of \<open>s\<close> between the separators. The result
  always has one piece more than \<open>s\<close> has separators, so the empty string splits into
  one empty piece.
\<close>

fun strings_Split :: "string \<Rightarrow> char \<Rightarrow> string list" where
  "strings_Split [] sep = [[]]"
| "strings_Split (c # cs) sep =
     (if c = sep then [] # strings_Split cs sep
      else (case strings_Split cs sep of
              [] \<Rightarrow> [[c]]
            | w # ws \<Rightarrow> (c # w) # ws))"

subsection \<open>net/textproto.CanonicalMIMEHeaderKey\<close>

text \<open>
  The canonical form of a header key: the first letter and every letter after a hyphen
  in upper case, the other letters in lower case. A key holding a byte that is not
  a token character of RFC 7230 (a space, for one) is returned as it is.
\<close>

definition lowers :: string where
  "lowers = ''abcdefghijklmnopqrstuvwxyz''"

definition uppers :: string where
  "uppers = ''ABCDEFGHIJKLMNOPQRSTUVWXYZ''"

definition digits :: string where
  "digits = ''0123456789''"

definition toUpper :: "char \<Rightarrow> char" where
  "toUpper c = (case map_of (zip lowers uppers) c of None \<Rightarrow> c | Some u \<Rightarrow> u)"

definition toLower :: "char \<Rightarrow> char" where
  "toLower c = (case map_of (zip uppers lowers) c of None \<Rightarrow> c | Some l \<Rightarrow> l)"

definition validHeaderFieldByte :: "char \<Rightarrow> bool" where
  "validHeaderFieldByte c =
     (c \<in> set (lowers @ uppers @ digits @ ''!#$%&*+-.^_|~'' @ [CHR 0x27, CHR 0x60]))"

fun canonicalMIMEHeaderKey :: "bool \<Rightarrow> string \<Rightarrow> string" where
  "canonicalMIMEHeaderKey upper [] = []"
| "canonicalMIMEHeaderKey upper (c # cs) =
     (let c' = (if upper \<and> c \<in> set lowers then toUpper c
                else if \<not> upper \<and> c \<in> set uppers then toLower c
                else c)
      in c' # canonicalMIMEHeaderKey (c' = CHR ''-'') cs)"

definition CanonicalMIMEHeaderKey :: "string \<Rightarrow> string" where
  "CanonicalMIMEHeaderKey s =
     (if list_all validHeaderFieldByte s then canonicalMIMEHeaderKey True s else s)"

subsection \<open>net/url.Values and net/http.Header\<close>

text \<open>
  Both are \<^verbatim>\<open>map[string][]string\<close>. \<^verbatim>\<open>Add\<close> appends a value to the list of
  a key; \<^verbatim>\<open>Get\<close> returns the first value of a key, or the empty string. The
  methods of \<^verbatim>\<open>http.Header\<close> canonicalise the key they are given; indexing the map
  directly does not.
\<close>

definition Values_Add ::
  "string \<Rightarrow> string \<Rightarrow> (string \<times> string list) list \<Rightarrow> (string \<times> string list) list" where
  "Values_Add key v q = AList.update key (index_values q key @ [v]) q"

definition Values_Get :: "(string \<times> string list) list \<Rightarrow> string \<Rightarrow> string" where
  "Values_Get q key = (case index_values q key of [] \<Rightarrow> [] | v # _ \<Rightarrow> v)"

definition Header_Add ::
  "string \<Rightarrow> string \<Rightarrow> (string \<times> string list) list \<Rightarrow> (string \<times> string list) list" where
  "Header_Add key v h =
     (let key' = CanonicalMIMEHeaderKey key
      in AList.update key' (index_values h key' @ [v]) h)"

definition Header_Get :: "(string \<times> string list) list \<Rightarrow> string \<Rightarrow> string" where
  "Header_Get h key =
     (case index_values h (CanonicalMIMEHeaderKey key) of [] \<Rightarrow> [] | v # _ \<Rightarrow> v)"

definition Header_Values :: "(string \<times> string list) list \<Rightarrow> string \<Rightarrow> string list" where
  "Header_Values h key = index_values h (CanonicalMIMEHeaderKey key)"

section \<open>Errors (error.go)\<close>

text \<open>
  A Go \<^verbatim>\<open>error\<close> is an interface value. Three shapes are told apart:
  \<^item> \<open>errorString s\<close>: the value of \<^verbatim>\<open>errors.New(s)\<close>;
  \<^item> \<open>StatusError code err\<close>: the package's \<^verbatim>\<open>&StatusError{code, err}\<close>, built by
    \<^verbatim>\<open>WrapError\<close> around a non-nil error, as every call in the package does;
  \<^item> \<open>otherError msg code cause\<close>: an error of any other type, with the text its
    \<^verbatim>\<open>Error()\<close> returns, the result of its \<^verbatim>\<open>Code()\<close> method when it has one, and
    the result of its \<^verbatim>\<open>Unwrap()\<close> method when it has one and that is not nil.
\<close>

datatype error =
    errorString string
  | StatusError int error
  | otherError string "int option" "error option"

definition WrapError :: "int \<Rightarrow> error \<Rightarrow> error" where
  "WrapError code err = StatusError code err"

fun Code :: "error \<Rightarrow> int option" where
  "Code (errorString s) = None"
| "Code (StatusError code err) = Some code"
| "Code (otherError msg code cause) = code"

fun Error :: "error \<Rightarrow> string" where
  "Error (errorString s) = s"
| "Error (StatusError code err) = Error err"
| "Error (otherError msg code cause) = msg"

fun Unwrap :: "error \<Rightarrow> error option" where
  "Unwrap (errorString s) = None"
| "Unwrap (StatusError code err) = Some err"
| "Unwrap (otherError msg code cause) = cause"

text \<open>
  \<^verbatim>\<open>errors.As(err, &se)\<close> for the interface \<^verbatim>\<open>statusError\<close> (an error with a
  \<^verbatim>\<open>Code() int\<close> method): the first error of the chain \<open>err, Unwrap err, ...\<close> that has
  the method; the result here is the code that error returns.
\<close>

fun errors_As_statusError :: "error \<Rightarrow> int option" where
  "errors_As_statusError (errorString s) = None"
| "errors_As_statusError (StatusError code err) = Some code"
| "errors_As_statusError (otherError msg (Some code) cause) = Some code"
| "errors_As_statusError (otherError msg None None) = None"
| "errors_As_statusError (otherError msg None (Some err)) = errors_As_statusError err"

definition StatusInternalServerError :: int where
  "StatusInternalServerError = 500"

definition StatusBadRequest :: int where
  "StatusBadRequest = 400"

definition StatusOK :: int where
  "StatusOK = 200"


section \<open>Events, the canonical request and response (rack.go)\<close>

text \<open>
  The event types of \<^verbatim>\<open>github.com/aws/aws-lambda-go/events\<close>, with the fields the
  package reads. A map field is nil (\<open>None\<close>) when the payload does not carry it.
\<close>

record APIGatewayProxyRequest =
  Path :: string
  HTTPMethod :: string
  MultiValueHeaders :: "(string \<times> string list) list option"
  MultiValueQueryStringParameters :: "(string \<times> string list) list option"
  PathParameters :: "(string \<times> string) list option"
  Body :: string

record APIGatewayV2HTTPRequestContextHTTPDescription =
  Method :: string
  Path :: string

record APIGatewayV2HTTPRequestContext =
  HTTP :: APIGatewayV2HTTPRequestContextHTTPDescription

record APIGatewayV2HTTPRequest =
  Headers :: "(string \<times> string) list option"
  QueryStringParameters :: "(string \<times> string) list option"
  PathParameters :: "(string \<times> string) list option"
  RequestContext :: APIGatewayV2HTTPRequestContext
  Body :: string

record ALBTargetGroupRequest =
  HTTPMethod :: string
  Path :: string
  QueryStringParameters :: "(string \<times> string) list option"
  MultiValueQueryStringParameters :: "(string \<times> string list) list option"
  Headers :: "(string \<times> string) list option"
  MultiValueHeaders :: "(string \<times> string list) list option"
  Body :: string

text \<open>\<^verbatim>\<open>Request.Event\<close> holds the decoded event, whichever type it has.\<close>

datatype Event =
    ProxyEvent APIGatewayProxyRequest
  | V2Event APIGatewayV2HTTPRequest
  | ALBEvent ALBTargetGroupRequest

record Request =
  Method :: string
  RawPath :: string
  Path :: "(string \<times> string) list option"
  Query :: "(string \<times> string list) list option"
  Header :: "(string \<times> string list) list option"
  Body :: string
  Event :: Event

text \<open>
  The response starts with the header map \<^verbatim>\<open>http.Header{}\<close> and is mutated in place,
  so its header map is never nil: it is a plain association list.
\<close>

record Response =
  StatusCode :: int
  Headers :: "(string \<times> string list) list"
  Body :: string

text \<open>
  The response types of the events package. \<^verbatim>\<open>MarshalResponse\<close> returns the JSON
  encoding of one of them; the model returns the value that is encoded.
\<close>

record APIGatewayProxyResponse =
  StatusCode :: int
  Headers :: "(string \<times> string) list"
  MultiValueHeaders :: "(string \<times> string list) list"
  Body :: string
  IsBase64Encoded :: bool

record APIGatewayV2HTTPResponse =
  StatusCode :: int
  Headers :: "(string \<times> string) list"
  MultiValueHeaders :: "(string \<times> string list) list"
  Body :: string
  IsBase64Encoded :: bool
  Cookies :: "string list"

record ALBTargetGroupResponse =
  StatusCode :: int
  StatusDescription :: string
  Headers :: "(string \<times> string) list"
  MultiValueHeaders :: "(string \<times> string list) list"
  Body :: string
  IsBase64Encoded :: bool

datatype wire_response =
    ProxyResponse APIGatewayProxyResponse
  | V2Response APIGatewayV2HTTPResponse
  | ALBResponse ALBTargetGroupResponse

subsection \<open>The payload\<close>

text \<open>
  The payload is a byte slice that the package never reads itself: it hands it to
  \<^verbatim>\<open>gjson.GetBytes\<close> / \<^verbatim>\<open>gjson.GetManyBytes\<close> and to \<^verbatim>\<open>json.Unmarshal\<close>. A payload is
  modelled by what these library calls return on it: the gjson result at a path
  (whether the path exists, and its string form), and the outcome of decoding it into
  each of the three event types (the decoded event, or the decoder's error).
\<close>

record gjson_Result =
  Exists :: bool
  String :: string

record payload =
  gjson_Get :: "string \<Rightarrow> gjson_Result"
  json_Unmarshal_APIGatewayProxyRequest :: "error + APIGatewayProxyRequest"
  json_Unmarshal_APIGatewayV2HTTPRequest :: "error + APIGatewayV2HTTPRequest"
  json_Unmarshal_ALBTargetGroupRequest :: "error + ALBTargetGroupRequest"

section \<open>Processors (processor.go)\<close>

record Processor =
  canProcess :: "payload \<Rightarrow> bool"
  unmarshalRequest :: "payload \<Rightarrow> error + Request"
  marshalResponse :: "Response \<Rightarrow> error + wire_response"

definition CanProcess :: "Processor \<Rightarrow> payload \<Rightarrow> bool" where
  "CanProcess p pl = canProcess p pl"

definition UnmarshalRequest :: "Processor \<Rightarrow> payload \<Rightarrow> error + Request" where
  "UnmarshalRequest p pl = unmarshalRequest p pl"

definition MarshalResponse :: "Processor \<Rightarrow> Response \<Rightarrow> error + wire_response" where
  "MarshalResponse p res = marshalResponse p res"

text \<open>
  \<^verbatim>\<open>mergeMaps(sv, mv, addFn)\<close>: \<open>addFn\<close> is the \<^verbatim>\<open>Add\<close> method of the map being
  built, here a function that returns the map with the value added.
\<close>

definition mergeMaps ::
  "(string \<times> string) list option \<Rightarrow> (string \<times> string list) list option \<Rightarrow>
   (string \<Rightarrow> string \<Rightarrow> 'm \<Rightarrow> 'm) \<Rightarrow> 'm \<Rightarrow> 'm" where
  "mergeMaps sv mv addFn m =
     fold (\<lambda>(k, vs) m2. fold (\<lambda>v m3. addFn k v m3) vs m2) (entries mv)
       (fold (\<lambda>(k, v) m1. addFn k v m1) (entries sv) m)"

definition reduceHeaders :: "(string \<times> string list) list \<Rightarrow> (string \<times> string) list" where
  "reduceHeaders h = fold (\<lambda>(k, vs) m. AList.update k (Header_Get h k) m) h []"

text \<open>\<^verbatim>\<open>http.StatusText\<close>: the text of a status code, empty for an unknown code.\<close>

definition StatusText :: "int \<Rightarrow> string" where
  "StatusText code =
     (case map_of
        [(100, ''Continue''), (101, ''Switching Protocols''), (102, ''Processing''),
         (103, ''Early Hints''),
         (200, ''OK''), (201, ''Created''), (202, ''Accepted''),
         (203, ''Non-Authoritative Information''), (204, ''No Content''),
         (205, ''Reset Content''), (206, ''Partial Content''), (207, ''Multi-Status''),
         (208, ''Already Reported''), (226, ''IM Used''),
         (300, ''Multiple Choices''), (301, ''Moved Permanently''), (302, ''Found''),
         (303, ''See Other''), (304, ''Not Modified''), (305, ''Use Proxy''),
         (307, ''Temporary Redirect''), (308, ''Permanent Redirect''),
         (400, ''Bad Request''), (401, ''Unauthorized''), (402, ''Payment Required''),
         (403, ''Forbidden''), (404, ''Not Found''), (405, ''Method Not Allowed''),
         (406, ''Not Acceptable''), (407, ''Proxy Authentication Required''),
         (408, ''Request Timeout''), (409, ''Conflict''), (410, ''Gone''),
         (411, ''Length Required''), (412, ''Precondition Failed''),
         (413, ''Request Entity Too Large''), (414, ''Request URI Too Long''),
         (415, ''Unsupported Media Type''), (416, ''Requested Range Not Satisfiable''),
         (417, ''Expectation Failed''), (418, [CHR ''I'', CHR 0x27] @ ''m a teapot''),
         (421, ''Misdirected Request''), (422, ''Unprocessable Entity''),
         (423, ''Locked''), (424, ''Failed Dependency''), (425, ''Too Early''),
         (426, ''Upgrade Required''), (428, ''Precondition Required''),
         (429, ''Too Many Requests''), (431, ''Request Header Fields Too Large''),
         (451, ''Unavailable For Legal Reasons''),
         (500, ''Internal Server Error''), (501, ''Not Implemented''),
         (502, ''Bad Gateway''), (503, ''Service Unavailable''),
         (504, ''Gateway Timeout''), (505, ''HTTP Version Not Supported''),
         (506, ''Variant Also Negotiates''), (507, ''Insufficient Storage''),
         (508, ''Loop Detected''), (510, ''Not Extended''),
         (511, ''Network Authentication Required'')] code of
        None \<Rightarrow> []
      | Some t \<Rightarrow> t)"

definition APIGatewayProxyEventProcessor :: Processor where
  "APIGatewayProxyEventProcessor =
     \<lparr>canProcess = (\<lambda>pl.
        let pv0 = gjson_Get pl ''version'';
            pv1 = gjson_Get pl ''requestContext.apiId''
        in \<not> Exists pv0 \<and> Exists pv1),
      unmarshalRequest = (\<lambda>pl.
        case json_Unmarshal_APIGatewayProxyRequest pl of
          Inl err \<Rightarrow> Inl err
        | Inr e \<Rightarrow>
            let q = APIGatewayProxyRequest.MultiValueQueryStringParameters e;
                h = APIGatewayProxyRequest.MultiValueHeaders e
            in Inr \<lparr>Method = APIGatewayProxyRequest.HTTPMethod e,
                    RawPath = APIGatewayProxyRequest.Path e,
                    Path = APIGatewayProxyRequest.PathParameters e,
                    Query = q,
                    Header = h,
                    Request.Body = APIGatewayProxyRequest.Body e,
                    Event = ProxyEvent e\<rparr>),
      marshalResponse = (\<lambda>r.
        Inr (ProxyResponse
          \<lparr>APIGatewayProxyResponse.StatusCode = Response.StatusCode r,
           APIGatewayProxyResponse.Headers = reduceHeaders (Response.Headers r),
           APIGatewayProxyResponse.MultiValueHeaders = Response.Headers r,
           APIGatewayProxyResponse.Body = Response.Body r,
           APIGatewayProxyResponse.IsBase64Encoded = False\<rparr>))\<rparr>"

definition APIGatewayV2HTTPEventProcessor :: Processor where
  "APIGatewayV2HTTPEventProcessor =
     \<lparr>canProcess = (\<lambda>pl.
        let pv0 = gjson_Get pl ''version'';
            pv1 = gjson_Get pl ''requestContext.apiId''
        in gjson_Result.String pv0 = ''2.0'' \<and> Exists pv1),
      unmarshalRequest = (\<lambda>pl.
        case json_Unmarshal_APIGatewayV2HTTPRequest pl of
          Inl err \<Rightarrow> Inl err
        | Inr e \<Rightarrow>
            let q = fold (\<lambda>(k, ps) q1.
                      fold (\<lambda>v q2. Values_Add k v q2) (strings_Split ps (CHR '','')) q1)
                      (entries (APIGatewayV2HTTPRequest.QueryStringParameters e)) [];
                h = mergeMaps (APIGatewayV2HTTPRequest.Headers e) None Header_Add []
            in Inr \<lparr>Method = APIGatewayV2HTTPRequestContextHTTPDescription.Method
                               (HTTP (RequestContext e)),
                    RawPath = APIGatewayV2HTTPRequestContextHTTPDescription.Path
                               (HTTP (RequestContext e)),
                    Path = APIGatewayV2HTTPRequest.PathParameters e,
                    Query = Some q,
                    Header = Some h,
                    Request.Body = APIGatewayV2HTTPRequest.Body e,
                    Event = V2Event e\<rparr>),
      marshalResponse = (\<lambda>r.
        Inr (V2Response
          \<lparr>APIGatewayV2HTTPResponse.StatusCode = Response.StatusCode r,
           APIGatewayV2HTTPResponse.Headers = reduceHeaders (Response.Headers r),
           APIGatewayV2HTTPResponse.MultiValueHeaders = Response.Headers r,
           APIGatewayV2HTTPResponse.Body = Response.Body r,
           APIGatewayV2HTTPResponse.IsBase64Encoded = False,
           Cookies = []\<rparr>))\<rparr>"

definition ALBTargetGroupEventProcessor :: Processor where
  "ALBTargetGroupEventProcessor =
     \<lparr>canProcess = (\<lambda>pl. Exists (gjson_Get pl ''requestContext.elb'')),
      unmarshalRequest = (\<lambda>pl.
        case json_Unmarshal_ALBTargetGroupRequest pl of
          Inl err \<Rightarrow> Inl err
        | Inr e \<Rightarrow>
            let q = mergeMaps (ALBTargetGroupRequest.QueryStringParameters e)
                      (ALBTargetGroupRequest.MultiValueQueryStringParameters e) Values_Add [];
                h = mergeMaps (ALBTargetGroupRequest.Headers e)
                      (ALBTargetGroupRequest.MultiValueHeaders e) Header_Add []
            in Inr \<lparr>Method = ALBTargetGroupRequest.HTTPMethod e,
                    RawPath = ALBTargetGroupRequest.Path e,
                    Path = Some [],
                    Query = Some q,
                    Header = Some h,
                    Request.Body = ALBTargetGroupRequest.Body e,
                    Event = ALBEvent e\<rparr>),
      marshalResponse = (\<lambda>r.
        Inr (ALBResponse
          \<lparr>ALBTargetGroupResponse.StatusCode = Response.StatusCode r,
           StatusDescription = StatusText (Response.StatusCode r),
           ALBTargetGroupResponse.Headers = reduceHeaders (Response.Headers r),
           ALBTargetGroupResponse.MultiValueHeaders = Response.Headers r,
           ALBTargetGroupResponse.Body = Response.Body r,
           ALBTargetGroupResponse.IsBase64Encoded = False\<rparr>))\<rparr>"

section \<open>Resolvers (resolver.go)\<close>

type_synonym Resolver = "payload \<Rightarrow> error + Processor"

definition Resolve :: "Resolver \<Rightarrow> payload \<Rightarrow> error + Processor" where
  "Resolve r pl = r pl"

definition ErrUnsupportedEventType :: error where
  "ErrUnsupportedEventType = errorString ''unsupported event type''"

definition NewStaticResolver :: "Processor \<Rightarrow> Resolver" where
  "NewStaticResolver p = (\<lambda>pl. Inr p)"

text \<open>The loop of \<^verbatim>\<open>NewConditionalResolver\<close> over the processors still to try.\<close>

fun conditionalLoop :: "Processor list \<Rightarrow> payload \<Rightarrow> error + Processor" where
  "conditionalLoop [] pl = Inl ErrUnsupportedEventType"
| "conditionalLoop (pp # ps) pl =
     (if CanProcess pp pl then Inr pp else conditionalLoop ps pl)"

definition NewConditionalResolver :: "Processor list \<Rightarrow> Resolver" where
  "NewConditionalResolver p = (\<lambda>pl. conditionalLoop p pl)"

definition defaultResolver :: Resolver where
  "defaultResolver =
     NewConditionalResolver
       [APIGatewayProxyEventProcessor,
        APIGatewayV2HTTPEventProcessor,
        ALBTargetGroupEventProcessor]"

section \<open>The status code of an error (error.go)\<close>

text \<open>
  \<^verbatim>\<open>StatusCode(err)\<close>; it stands after the records so that the plain name is the
  function and a field of that name is always written with its record.
\<close>

definition StatusCode :: "error \<Rightarrow> int" where
  "StatusCode err =
     (case errors_As_statusError err of
        Some code \<Rightarrow> code
      | None \<Rightarrow> StatusInternalServerError)"

section \<open>The handler context (context.go)\<close>

text \<open>
  Of the fields of \<^verbatim>\<open>handlerContext\<close>, the request, the response and the bind
  callback are modelled; the cancellation carrier, the scratch store and its lock play
  no part in the operations below. A function that takes the context and may mutate it
  returns the context it leaves behind. The bind callback \<^verbatim>\<open>func(Context, interface{}) error\<close>
  is given the request and the response of the context and the decoded target; it returns
  its error, the target and the response as it leaves them. \<open>'t\<close> is the type of the
  values that handlers bind.
\<close>

record 't handlerContext =
  request :: Request
  response :: Response
  onBind :: "Request \<Rightarrow> Response \<Rightarrow> 't \<Rightarrow> error option \<times> 't \<times> Response"

type_synonym 'c HandlerFunc = "'c \<Rightarrow> error option \<times> 'c"

type_synonym 'c MiddlewareFunc = "'c HandlerFunc \<Rightarrow> 'c HandlerFunc"

definition handlerContext_Path :: "'t handlerContext \<Rightarrow> string \<Rightarrow> string" where
  "handlerContext_Path c key = index_string (entries (Request.Path (request c))) key"

definition handlerContext_Query :: "'t handlerContext \<Rightarrow> string \<Rightarrow> string" where
  "handlerContext_Query c key = Values_Get (entries (Query (request c))) key"

text \<open>
  \<^verbatim>\<open>Bind(v)\<close>. \<open>json_Unmarshal\<close> stands for \<^verbatim>\<open>json.Unmarshal\<close> at the type of the
  target: given the body and the target it returns its error, if any, and the target as
  it leaves it. The result is the error of \<^verbatim>\<open>Bind\<close>, the target and the context.
\<close>

definition Bind ::
  "'t handlerContext \<Rightarrow> (string \<Rightarrow> 't \<Rightarrow> error option \<times> 't) \<Rightarrow> 't \<Rightarrow>
   error option \<times> 't \<times> 't handlerContext" where
  "Bind c json_Unmarshal v =
     (if Request.Body (request c) = [] then (None, v, c)
      else (case json_Unmarshal (Request.Body (request c)) v of
              (Some err, v') \<Rightarrow> (Some (WrapError StatusBadRequest err), v', c)
            | (None, v') \<Rightarrow>
                (case onBind c (request c) (response c) v' of
                   (err, v'', res) \<Rightarrow> (err, v'', c\<lparr>response := res\<rparr>))))"

definition NoContent :: "'t handlerContext \<Rightarrow> int \<Rightarrow> error option \<times> 't handlerContext" where
  "NoContent c code = (None, c\<lparr>response := (response c)\<lparr>Response.StatusCode := code\<rparr>\<rparr>)"

definition String ::
  "'t handlerContext \<Rightarrow> int \<Rightarrow> string \<Rightarrow> error option \<times> 't handlerContext" where
  "String c code s =
     (None, c\<lparr>response := (response c)
        \<lparr>Response.StatusCode := code,
         Response.Body := s,
         Response.Headers :=
           AList.update ''Content-Type'' [''text/plain''] (Response.Headers (response c))\<rparr>\<rparr>)"

text \<open>
  \<^verbatim>\<open>JSON(code, v)\<close>. \<open>json_Marshal\<close> stands for \<^verbatim>\<open>json.Marshal\<close> at the type of
  \<open>v\<close>: the encoding of the value, or the encoder's error.
\<close>

definition JSON ::
  "'t handlerContext \<Rightarrow> ('v \<Rightarrow> error + string) \<Rightarrow> int \<Rightarrow> 'v \<Rightarrow>
   error option \<times> 't handlerContext" where
  "JSON c json_Marshal code v =
     (case json_Marshal v of
        Inl err \<Rightarrow> (Some err, c)
      | Inr b \<Rightarrow>
          (None, c\<lparr>response := (response c)
             \<lparr>Response.StatusCode := code,
              Response.Body := b,
              Response.Headers :=
                AList.update ''Content-Type'' [''application/json'']
                  (Response.Headers (response c))\<rparr>\<rparr>))"

section \<open>The default error handler (rack.go)\<close>

text \<open>
  \<^verbatim>\<open>json.Marshal\<close> of the anonymous struct with the one field
  \<^verbatim>\<open>Message string `json:"message"`\<close>. The encoder writes a string between double quotes;
  it escapes the double quote and the backslash with a backslash, writes the control
  characters as \<^verbatim>\<open>\b \f \n \r \t\<close> or \<^verbatim>\<open>\u00XX\<close>, and writes the bytes 0x3C, 0x3E
  and 0x26 (less than, greater than, ampersand) as \<^verbatim>\<open>\u003c\<close>, \<^verbatim>\<open>\u003e\<close> and
  \<^verbatim>\<open>\u0026\<close>. Bytes from 0x80 on are copied: that is what the encoder does to
  well-formed UTF-8 other than U+2028 and U+2029, and the model goes no further.
  Encoding such a struct never fails.
\<close>

definition hex :: string where
  "hex = ''0123456789abcdef''"

definition json_escape :: "char \<Rightarrow> string" where
  "json_escape c =
     (if c = CHR 0x22 then [CHR 0x5C, CHR 0x22]
      else if c = CHR 0x5C then [CHR 0x5C, CHR 0x5C]
      else if c = CHR 0x08 then [CHR 0x5C, CHR ''b'']
      else if c = CHR 0x0C then [CHR 0x5C, CHR ''f'']
      else if c = CHR 0x0A then [CHR 0x5C, CHR ''n'']
      else if c = CHR 0x0D then [CHR 0x5C, CHR ''r'']
      else if c = CHR 0x09 then [CHR 0x5C, CHR ''t'']
      else if (of_char c :: nat) < 32 \<or> c \<in> set ''<>&''
        then [CHR 0x5C] @ ''u00'' @
             [hex ! ((of_char c :: nat) div 16), hex ! ((of_char c :: nat) mod 16)]
      else [c])"

definition json_string :: "string \<Rightarrow> string" where
  "json_string s = [CHR 0x22] @ concat (map json_escape s) @ [CHR 0x22]"

record messageBody =
  Message :: string

definition json_Marshal_messageBody :: "messageBody \<Rightarrow> error + string" where
  "json_Marshal_messageBody res =
     Inr (''{'' @ json_string ''message'' @ '':'' @ json_string (Message res) @ ''}'')"

definition defaultErrorHandler ::
  "'t handlerContext \<Rightarrow> error \<Rightarrow> error option \<times> 't handlerContext" where
  "defaultErrorHandler c err =
     (let res = \<lparr>Message = Error err\<rparr>
      in JSON c json_Marshal_messageBody (StatusCode err) res)"

section \<open>The invocation pipeline (rack.go)\<close>

record 't Config =
  Resolver :: "Resolver option"
  Middleware :: "('t handlerContext) MiddlewareFunc option"
  OnBind :: "(Request \<Rightarrow> Response \<Rightarrow> 't \<Rightarrow> error option \<times> 't \<times> Response) option"
  OnError :: "('t handlerContext \<Rightarrow> error \<Rightarrow> error option \<times> 't handlerContext) option"
  OnEmptyResponse :: "('t handlerContext) HandlerFunc option"

text \<open>
  The stages of one invocation, in the words of the specification. The function the
  package returns is modelled with a log of the stages it goes through, in order, beside
  its result; the log is an observer and decides nothing.
\<close>

datatype stage =
    Stage_Resolve
  | Stage_Decode
  | Stage_ConstructContext
  | Stage_Execute
  | Stage_ErrorRecovery
  | Stage_DefaultResponseCheck
  | Stage_EmptyResponsePolicy
  | Stage_Encode

text \<open>
  \<^verbatim>\<open>if err != nil { if err = onError(c, err); err != nil { return nil, err } }\<close>:
  \<open>Inl\<close> is the early return, \<open>Inr\<close> the context with which the function goes on.
\<close>

definition errorRecovery ::
  "('c \<Rightarrow> error \<Rightarrow> error option \<times> 'c) \<Rightarrow> error option \<Rightarrow> 'c \<Rightarrow> stage list \<times> (error + 'c)" where
  "errorRecovery onError err c =
     (case err of
        None \<Rightarrow> ([], Inr c)
      | Some e \<Rightarrow>
          (case onError c e of
             (Some e', c') \<Rightarrow> ([Stage_ErrorRecovery], Inl e')
           | (None, c') \<Rightarrow> ([Stage_ErrorRecovery], Inr c')))"

text \<open>The function value \<^verbatim>\<open>invokeFunc(func(ctx, payload) ...)\<close> that \<^verbatim>\<open>NewWithConfig\<close> returns.\<close>

definition invokeFunc ::
  "Resolver \<Rightarrow> ('t handlerContext) HandlerFunc \<Rightarrow>
   ('t handlerContext \<Rightarrow> error \<Rightarrow> error option \<times> 't handlerContext) \<Rightarrow>
   (Request \<Rightarrow> Response \<Rightarrow> 't \<Rightarrow> error option \<times> 't \<times> Response) \<Rightarrow>
   ('t handlerContext) HandlerFunc \<Rightarrow> payload \<Rightarrow> stage list \<times> (error + wire_response)" where
  "invokeFunc resolver h onError onBind' onEmptyResponse pl =
     (case Resolve resolver pl of
        Inl err \<Rightarrow> ([Stage_Resolve], Inl err)
      | Inr p \<Rightarrow>
     (case UnmarshalRequest p pl of
        Inl err \<Rightarrow> ([Stage_Resolve, Stage_Decode], Inl err)
      | Inr req \<Rightarrow>
     (let c = \<lparr>request = req,
               response = \<lparr>Response.StatusCode = 0, Response.Headers = [], Response.Body = []\<rparr>,
               onBind = onBind'\<rparr>;
          s0 = [Stage_Resolve, Stage_Decode, Stage_ConstructContext, Stage_Execute]
      in
     (case h c of (err1, c1) \<Rightarrow>
     (case errorRecovery onError err1 c1 of
        (s1, Inl err) \<Rightarrow> (s0 @ s1, Inl err)
      | (s1, Inr c2) \<Rightarrow>
          (if Response.StatusCode (response c2) = 0 then
             (case onEmptyResponse c2 of (err3, c3) \<Rightarrow>
             (case errorRecovery onError err3 c3 of
                (s2, Inl err) \<Rightarrow>
                  (s0 @ s1 @ [Stage_DefaultResponseCheck, Stage_EmptyResponsePolicy] @ s2,
                   Inl err)
              | (s2, Inr c4) \<Rightarrow>
                  (s0 @ s1 @ [Stage_DefaultResponseCheck, Stage_EmptyResponsePolicy] @ s2 @
                     [Stage_Encode],
                   MarshalResponse p (response c4))))
           else
             (s0 @ s1 @ [Stage_DefaultResponseCheck, Stage_Encode],
              MarshalResponse p (response c2))))))))"

definition NewWithConfig ::
  "'t Config \<Rightarrow> ('t handlerContext) HandlerFunc \<Rightarrow> payload \<Rightarrow>
   stage list \<times> (error + wire_response)" where
  "NewWithConfig c h =
     (let h' = (case Middleware c of None \<Rightarrow> h | Some m \<Rightarrow> m h);
          resolver = (case Resolver c of None \<Rightarrow> defaultResolver | Some r \<Rightarrow> r);
          onError = (case OnError c of None \<Rightarrow> defaultErrorHandler | Some f \<Rightarrow> f);
          onBind' = (case OnBind c of None \<Rightarrow> (\<lambda>req res v. (None, v, res)) | Some f \<Rightarrow> f);
          onEmptyResponse =
            (case OnEmptyResponse c of None \<Rightarrow> (\<lambda>c. NoContent c StatusOK) | Some f \<Rightarrow> f)
      in invokeFunc resolver h' onError onBind' onEmptyResponse)"

definition emptyConfig :: "'t Config" where
  "emptyConfig =
     \<lparr>Resolver = None, Middleware = None, OnBind = None, OnError = None,
      OnEmptyResponse = None\<rparr>"

definition New ::
  "('t handlerContext) HandlerFunc \<Rightarrow> payload \<Rightarrow> stage list \<times> (error + wire_response)" where
  "New h = NewWithConfig emptyConfig h"

text \<open>\<^verbatim>\<open>Invoke\<close> returns what the function returns; the log is dropped.\<close>

definition Invoke ::
  "(payload \<Rightarrow> stage list \<times> (error + wire_response)) \<Rightarrow> payload \<Rightarrow> error + wire_response" where
  "Invoke fn pl = snd (fn pl)"

subsection \<open>Chain\<close>

text \<open>
  The loop \<^verbatim>\<open>for i := len(m) - 1; i >= 0; i-- { n = m[i](n) }\<close>; the counter of the
  model is \<open>i + 1\<close>, so the loop ends at 0.
\<close>

fun chainLoop :: "('h \<Rightarrow> 'h) list \<Rightarrow> nat \<Rightarrow> 'h \<Rightarrow> 'h" where
  "chainLoop m 0 n = n"
| "chainLoop m (Suc i) n = chainLoop m i ((m ! i) n)"

definition Chain :: "('h \<Rightarrow> 'h) list \<Rightarrow> 'h \<Rightarrow> 'h" where
  "Chain m = (\<lambda>n. chainLoop m (length m) n)"

section \<open>Middleware with code before and after the call\<close>

text \<open>
  The helper \<^verbatim>\<open>mw(sb, s)\<close> of \<^verbatim>\<open>TestChain\<close> builds a middleware that writes \<open>s\<close> to
  a string builder, calls the next handler and, deferred, writes \<open>s\<close> again. Its state is
  the text of the builder. \<open>middleware before after\<close> is the same shape with any code
  before the call and any code after it; \<open>testHandler\<close> is the handler of the test.
\<close>

definition middleware :: "('c \<Rightarrow> 'c) \<Rightarrow> ('c \<Rightarrow> 'c) \<Rightarrow> 'c MiddlewareFunc" where
  "middleware before after n = (\<lambda>c. case n (before c) of (err, c') \<Rightarrow> (err, after c'))"

definition mw :: "string \<Rightarrow> string MiddlewareFunc" where
  "mw s n = (\<lambda>sb. case n (sb @ s) of (err, sb') \<Rightarrow> (err, sb' @ s))"

definition testHandler :: "string HandlerFunc" where
  "testHandler = (\<lambda>sb. (None, sb @ ''h''))"

section \<open>Payloads used as concrete inputs\<close>

text \<open>
  The zero value of each event type (what \<^verbatim>\<open>json.Unmarshal\<close> leaves of an event when
  the payload carries none of its fields), and the gjson results of a path that the
  payload does not have and of a path that it has.
\<close>

definition zeroProxyRequest :: APIGatewayProxyRequest where
  "zeroProxyRequest =
     \<lparr>APIGatewayProxyRequest.Path = [],
      APIGatewayProxyRequest.HTTPMethod = [],
      APIGatewayProxyRequest.MultiValueHeaders = None,
      APIGatewayProxyRequest.MultiValueQueryStringParameters = None,
      APIGatewayProxyRequest.PathParameters = None,
      APIGatewayProxyRequest.Body = []\<rparr>"

definition zeroV2Request :: APIGatewayV2HTTPRequest where
  "zeroV2Request =
     \<lparr>APIGatewayV2HTTPRequest.Headers = None,
      APIGatewayV2HTTPRequest.QueryStringParameters = None,
      APIGatewayV2HTTPRequest.PathParameters = None,
      RequestContext =
        \<lparr>HTTP = \<lparr>APIGatewayV2HTTPRequestContextHTTPDescription.Method = [],
                  APIGatewayV2HTTPRequestContextHTTPDescription.Path = []\<rparr>\<rparr>,
      APIGatewayV2HTTPRequest.Body = []\<rparr>"

definition zeroALBRequest :: ALBTargetGroupRequest where
  "zeroALBRequest =
     \<lparr>ALBTargetGroupRequest.HTTPMethod = [],
      ALBTargetGroupRequest.Path = [],
      ALBTargetGroupRequest.QueryStringParameters = None,
      ALBTargetGroupRequest.MultiValueQueryStringParameters = None,
      ALBTargetGroupRequest.Headers = None,
      ALBTargetGroupRequest.MultiValueHeaders = None,
      ALBTargetGroupRequest.Body = []\<rparr>"

definition absent :: gjson_Result where
  "absent = \<lparr>Exists = False, gjson_Result.String = []\<rparr>"

definition present :: "string \<Rightarrow> gjson_Result" where
  "present s = \<lparr>Exists = True, gjson_Result.String = s\<rparr>"

text \<open>
  The payloads below are JSON objects that carry the keys of the fields modelled and
  the key that lets a processor claim them, and no other. The same bytes decode into
  each of the three event types: a decoder fills the fields whose JSON keys the object
  carries (\<^verbatim>\<open>pathParameters\<close> and \<^verbatim>\<open>body\<close> are keys of the Gateway-Proxy and of the
  Gateway-V2 event; \<^verbatim>\<open>headers\<close>, \<^verbatim>\<open>queryStringParameters\<close> and \<^verbatim>\<open>body\<close> of the
  Gateway-V2 and of the Load-Balancer event; \<^verbatim>\<open>path\<close>, \<^verbatim>\<open>httpMethod\<close>,
  \<^verbatim>\<open>multiValueHeaders\<close>, \<^verbatim>\<open>multiValueQueryStringParameters\<close> and \<^verbatim>\<open>body\<close> of the
  Gateway-Proxy and of the Load-Balancer event) and leaves the others at their zero
  value. The gjson results are those at the three paths the package queries.

  \<open>v2Payload e\<close> is the payload with version \<^verbatim>\<open>"2.0"\<close> and the API identifier
  \<^verbatim>\<open>"apiid"\<close> that decodes to the Gateway-V2 event \<open>e\<close>; \<open>newV2Request\<close> is
  \<^verbatim>\<open>newV2Request(nil)\<close> of the tests, where every other field has its zero value.
\<close>

definition v2Payload :: "APIGatewayV2HTTPRequest \<Rightarrow> payload" where
  "v2Payload e =
     \<lparr>gjson_Get = (\<lambda>path.
        if path = ''version'' then present ''2.0''
        else if path = ''requestContext.apiId'' then present ''apiid''
        else absent),
      json_Unmarshal_APIGatewayProxyRequest =
        Inr (zeroProxyRequest
          \<lparr>APIGatewayProxyRequest.PathParameters := APIGatewayV2HTTPRequest.PathParameters e,
           APIGatewayProxyRequest.Body := APIGatewayV2HTTPRequest.Body e\<rparr>),
      json_Unmarshal_APIGatewayV2HTTPRequest = Inr e,
      json_Unmarshal_ALBTargetGroupRequest =
        Inr (zeroALBRequest
          \<lparr>ALBTargetGroupRequest.QueryStringParameters :=
             APIGatewayV2HTTPRequest.QueryStringParameters e,
           ALBTargetGroupRequest.Headers := APIGatewayV2HTTPRequest.Headers e,
           ALBTargetGroupRequest.Body := APIGatewayV2HTTPRequest.Body e\<rparr>)\<rparr>"

definition newV2Request :: payload where
  "newV2Request = v2Payload zeroV2Request"

text \<open>
  The Gateway-Proxy payload \<^verbatim>\<open>{"requestContext":{"apiId":"apiid"}, ...}\<close> with no
  \<^verbatim>\<open>version\<close> key that decodes to the Gateway-Proxy event \<open>e\<close>.
\<close>

definition proxyPayload :: "APIGatewayProxyRequest \<Rightarrow> payload" where
  "proxyPayload e =
     \<lparr>gjson_Get = (\<lambda>path.
        if path = ''requestContext.apiId'' then present ''apiid'' else absent),
      json_Unmarshal_APIGatewayProxyRequest = Inr e,
      json_Unmarshal_APIGatewayV2HTTPRequest =
        Inr (zeroV2Request
          \<lparr>APIGatewayV2HTTPRequest.PathParameters := APIGatewayProxyRequest.PathParameters e,
           APIGatewayV2HTTPRequest.Body := APIGatewayProxyRequest.Body e\<rparr>),
      json_Unmarshal_ALBTargetGroupRequest =
        Inr (zeroALBRequest
          \<lparr>ALBTargetGroupRequest.HTTPMethod := APIGatewayProxyRequest.HTTPMethod e,
           ALBTargetGroupRequest.Path := APIGatewayProxyRequest.Path e,
           ALBTargetGroupRequest.MultiValueQueryStringParameters :=
             APIGatewayProxyRequest.MultiValueQueryStringParameters e,
           ALBTargetGroupRequest.MultiValueHeaders := APIGatewayProxyRequest.MultiValueHeaders e,
           ALBTargetGroupRequest.Body := APIGatewayProxyRequest.Body e\<rparr>)\<rparr>"

text \<open>
  The Load-Balancer payload \<^verbatim>\<open>{"requestContext":{"elb":{"targetGroupArn":"arn"}}, ...}\<close>
  that decodes to the Load-Balancer event \<open>e\<close>.
\<close>

definition albPayload :: "ALBTargetGroupRequest \<Rightarrow> payload" where
  "albPayload e =
     \<lparr>gjson_Get = (\<lambda>path.
        if path = ''requestContext.elb'' then present ''{\"targetGroupArn\":\"arn\"}''
        else absent),
      json_Unmarshal_APIGatewayProxyRequest =
        Inr (zeroProxyRequest
          \<lparr>APIGatewayProxyRequest.Path := ALBTargetGroupRequest.Path e,
           APIGatewayProxyRequest.HTTPMethod := ALBTargetGroupRequest.HTTPMethod e,
           APIGatewayProxyRequest.MultiValueHeaders := ALBTargetGroupRequest.MultiValueHeaders e,
           APIGatewayProxyRequest.MultiValueQueryStringParameters :=
             ALBTargetGroupRequest.MultiValueQueryStringParameters e,
           APIGatewayProxyRequest.Body := ALBTargetGroupRequest.Body e\<rparr>),
      json_Unmarshal_APIGatewayV2HTTPRequest =
        Inr (zeroV2Request
          \<lparr>APIGatewayV2HTTPRequest.Headers := ALBTargetGroupRequest.Headers e,
           APIGatewayV2HTTPRequest.QueryStringParameters :=
             ALBTargetGroupRequest.QueryStringParameters e,
           APIGatewayV2HTTPRequest.Body := ALBTargetGroupRequest.Body e\<rparr>),
      json_Unmarshal_ALBTargetGroupRequest = Inr e\<rparr>"

text \<open>
  The payload \<^verbatim>\<open>{\<close> of the tests: no path exists in it and no decoder accepts it.
\<close>

definition invalidPayload :: payload where
  "invalidPayload =
     \<lparr>gjson_Get = (\<lambda>path. absent),
      json_Unmarshal_APIGatewayProxyRequest =
        Inl (otherError ''unexpected end of JSON input'' None None),
      json_Unmarshal_APIGatewayV2HTTPRequest =
        Inl (otherError ''unexpected end of JSON input'' None None),
      json_Unmarshal_ALBTargetGroupRequest =
        Inl (otherError ''unexpected end of JSON input'' None None)\<rparr>"

text \<open>
  \<^verbatim>\<open>json.Unmarshal\<close> into the struct \<^verbatim>\<open>struct{ Key string `json:"key"` }\<close> of the tests,
  the target being modelled by its one field, on the two bodies the tests bind:
  \<^verbatim>\<open>{"key":"value"}\<close> sets the field, and \<^verbatim>\<open>{\<close> is a syntax error that leaves the target
  as it is. The fixture is used on these two bodies only.
\<close>

definition testUnmarshal :: "string \<Rightarrow> string \<Rightarrow> error option \<times> string" where
  "testUnmarshal body v =
     (if body = ''{\"key\":\"value\"}'' then (None, ''value'')
      else (Some (otherError ''unexpected end of JSON input'' None None), v))"

text \<open>
  A bind callback that leaves a mark on the response each time it runs (it appends
  \<^verbatim>\<open>x\<close> to the body) and fails with the error \<^verbatim>\<open>invalid\<close>.
\<close>

definition markingOnBind :: "Request \<Rightarrow> Response \<Rightarrow> string \<Rightarrow> error option \<times> string \<times> Response" where
  "markingOnBind req res v =
     (Some (errorString ''invalid''), v, res\<lparr>Response.Body := Response.Body res @ ''x''\<rparr>)"

text \<open>
  The request that the Gateway-V2 decoder returns for \<^verbatim>\<open>newV2Request\<close> with the body
  set to \<open>b\<close>.
\<close>

definition testRequest :: "string \<Rightarrow> Request" where
  "testRequest b =
     \<lparr>Method = [], RawPath = [], Request.Path = None, Query = Some [], Header = Some [],
      Request.Body = b,
      Event = V2Event (zeroV2Request\<lparr>APIGatewayV2HTTPRequest.Body := b\<rparr>)\<rparr>"

text \<open>The context that the pipeline builds from a decoded request.\<close>

definition newContext ::
  "Request \<Rightarrow> (Request \<Rightarrow> Response \<Rightarrow> 't \<Rightarrow> error option \<times> 't \<times> Response) \<Rightarrow> 't handlerContext" where
  "newContext req ob =
     \<lparr>request = req,
      response = \<lparr>Response.StatusCode = 0, Response.Headers = [], Response.Body = []\<rparr>,
      onBind = ob\<rparr>"


section \<open>What the entries of a payload map contribute to a key\<close>

text \<open>
  The values that the entries of a single-value map, and of a multi-value map, add to
  the key \<open>K\<close> of a map built with \<^verbatim>\<open>Add\<close>, in the order the loop visits the entries.
  \<open>f\<close> is what \<^verbatim>\<open>Add\<close> does to the key it is given: nothing for \<^verbatim>\<open>url.Values\<close>, the
  canonical form for \<^verbatim>\<open>http.Header\<close>.
\<close>

definition singleValues ::
  "(string \<Rightarrow> string) \<Rightarrow> (string \<times> string) list option \<Rightarrow> string \<Rightarrow> string list" where
  "singleValues f sv K = map snd (filter (\<lambda>p. f (fst p) = K) (entries sv))"

definition multiValues ::
  "(string \<Rightarrow> string) \<Rightarrow> (string \<times> string list) list option \<Rightarrow> string \<Rightarrow> string list" where
  "multiValues f mv K = concat (map snd (filter (\<lambda>p. f (fst p) = K) (entries mv)))"

section \<open>Chain composes its arguments with the first one outermost\<close>

lemma chainLoop_foldr:
  "k \<le> length m \<Longrightarrow> chainLoop m k n = foldr (\<lambda>f x. f x) (take k m) n"
proof (induction k arbitrary: n)
  case 0
  show ?case by simp
next
  case (Suc k)
  from Suc.prems have lt: "k < length m" by simp
  have "chainLoop m (Suc k) n = chainLoop m k ((m ! k) n)" by simp
  also have "\<dots> = foldr (\<lambda>f x. f x) (take k m) ((m ! k) n)"
    using Suc.IH [of "(m ! k) n"] lt by simp
  also have "\<dots> = foldr (\<lambda>f x. f x) (take (Suc k) m) n"
    using lt by (simp add: take_Suc_conv_app_nth)
  finally show ?case .
qed

lemma Chain_foldr: "Chain m n = foldr (\<lambda>f x. f x) m n"
  by (simp add: Chain_def chainLoop_foldr)

text \<open>
  C9. For all middleware functions \<open>M1\<close>, \<open>M2\<close> and every handler \<open>H\<close>,
  \<open>Chain [M1, M2] H\<close> is \<open>M1 (M2 H)\<close>: index 0 is outermost. When the two are middleware
  with code before and after the call of the next handler, the composed handler runs
  the before-code of the first, the before-code of the second, \<open>H\<close>, the after-code of the
  second and the after-code of the first, in this order, and returns the error of \<open>H\<close>.
  On the middleware of \<^verbatim>\<open>TestChain\<close> the builder ends with the text \<^verbatim>\<open>12h21\<close>.
\<close>

theorem C9_chain_order:
  "Chain [M1, M2] H = M1 (M2 H)
   \<and> Chain [middleware b1 a1, middleware b2 a2] H c =
       (fst (H (b2 (b1 c))), a1 (a2 (snd (H (b2 (b1 c))))))
   \<and> Chain [mw ''1'', mw ''2''] testHandler [] = (None, ''12h21'')"
proof -
  have 1: "Chain [M1, M2] H = M1 (M2 H)" for M1 M2 :: "'x \<Rightarrow> 'x" and H
    by (simp add: Chain_foldr)
  have 2: "Chain [middleware b1 a1, middleware b2 a2] H c =
       (fst (H (b2 (b1 c))), a1 (a2 (snd (H (b2 (b1 c))))))"
    by (simp add: 1 middleware_def split: prod.split)
  have 3: "Chain [mw ''1'', mw ''2''] testHandler [] = (None, ''12h21'')"
    by (simp add: 1 mw_def testHandler_def)
  show ?thesis
    by (intro conjI) (rule 1, rule 2, rule 3)
qed

section \<open>The default error handler\<close>

lemma errors_As_statusError_unfold:
  "errors_As_statusError e =
     (case Code e of
        Some code \<Rightarrow> Some code
      | None \<Rightarrow> (case Unwrap e of None \<Rightarrow> None | Some e' \<Rightarrow> errors_As_statusError e'))"
  by (induction e rule: errors_As_statusError.induct) simp_all










section \<open>The conditional resolver\<close>

lemma conditionalLoop_find:
  "conditionalLoop ps pl =
     (case List.find (\<lambda>p. CanProcess p pl) ps of
        None \<Rightarrow> Inl ErrUnsupportedEventType
      | Some p \<Rightarrow> Inr p)"
  by (induction ps) simp_all

lemma conditionalLoop_Inr_iff:
  "conditionalLoop ps pl = Inr p \<longleftrightarrow>
     (\<exists>i<length ps. p = ps ! i \<and> CanProcess (ps ! i) pl \<and> (\<forall>j<i. \<not> CanProcess (ps ! j) pl))"
proof -
  have "conditionalLoop ps pl = Inr p \<longleftrightarrow> List.find (\<lambda>p. CanProcess p pl) ps = Some p"
    by (simp add: conditionalLoop_find split: option.split)
  then show ?thesis
    by (auto simp: find_Some_iff)
qed

lemma conditionalLoop_Inl_iff:
  "conditionalLoop ps pl = Inl err \<longleftrightarrow>
     err = ErrUnsupportedEventType \<and> (\<forall>j<length ps. \<not> CanProcess (ps ! j) pl)"
proof -
  have "conditionalLoop ps pl = Inl err \<longleftrightarrow>
      err = ErrUnsupportedEventType \<and> List.find (\<lambda>p. CanProcess p pl) ps = None"
    by (auto simp: conditionalLoop_find split: option.split)
  then show ?thesis
    by (auto simp: find_None_iff in_set_conv_nth)
qed

text \<open>
  C4. For every sequence of processors \<open>ps\<close> and every payload, \<open>Resolve\<close> of the
  conditional resolver over \<open>ps\<close> returns a processor \<open>p\<close> exactly when \<open>p\<close> is the first
  element of \<open>ps\<close> whose \<open>CanProcess\<close> is true for the payload, and fails exactly when no
  element's \<open>CanProcess\<close> is true, the error then being \<open>ErrUnsupportedEventType\<close>. The
  default resolver is the conditional resolver over the Gateway-Proxy, the Gateway-V2
  and the Load-Balancer processor, in this order, and it is the resolver that
  \<open>NewWithConfig\<close> uses when the configuration has none.
\<close>

theorem C4_conditional_resolver:
  "(Resolve (NewConditionalResolver ps) pl = Inr p \<longleftrightarrow>
      (\<exists>i<length ps. p = ps ! i \<and> CanProcess (ps ! i) pl \<and>
         (\<forall>j<i. \<not> CanProcess (ps ! j) pl)))
   \<and> (Resolve (NewConditionalResolver ps) pl = Inl err \<longleftrightarrow>
        err = ErrUnsupportedEventType \<and> (\<forall>j<length ps. \<not> CanProcess (ps ! j) pl))
   \<and> defaultResolver =
       NewConditionalResolver
         [APIGatewayProxyEventProcessor, APIGatewayV2HTTPEventProcessor,
          ALBTargetGroupEventProcessor]
   \<and> NewWithConfig (c\<lparr>Resolver := None\<rparr>) h =
       NewWithConfig (c\<lparr>Resolver := Some defaultResolver\<rparr>) h"
proof (intro conjI)
  show "Resolve (NewConditionalResolver ps) pl = Inr p \<longleftrightarrow>
      (\<exists>i<length ps. p = ps ! i \<and> CanProcess (ps ! i) pl \<and>
         (\<forall>j<i. \<not> CanProcess (ps ! j) pl))"
    by (simp add: Resolve_def NewConditionalResolver_def conditionalLoop_Inr_iff)
  show "Resolve (NewConditionalResolver ps) pl = Inl err \<longleftrightarrow>
        err = ErrUnsupportedEventType \<and> (\<forall>j<length ps. \<not> CanProcess (ps ! j) pl)"
    by (simp add: Resolve_def NewConditionalResolver_def conditionalLoop_Inl_iff)
  show "defaultResolver =
       NewConditionalResolver
         [APIGatewayProxyEventProcessor, APIGatewayV2HTTPEventProcessor,
          ALBTargetGroupEventProcessor]"
    by (simp add: defaultResolver_def)
  show "NewWithConfig (c\<lparr>Resolver := None\<rparr>) h =
       NewWithConfig (c\<lparr>Resolver := Some defaultResolver\<rparr>) h"
    by (simp add: NewWithConfig_def)
qed

text \<open>
  On the Gateway-V2 payload of the tests the first processor does not match and the
  second does; on the payload \<^verbatim>\<open>{\<close> none matches.
\<close>

theorem C4_conditional_resolver_witness:
  "Resolve (NewConditionalResolver
      [APIGatewayProxyEventProcessor, APIGatewayV2HTTPEventProcessor,
       ALBTargetGroupEventProcessor]) newV2Request = Inr APIGatewayV2HTTPEventProcessor
   \<and> Resolve (NewConditionalResolver
      [APIGatewayProxyEventProcessor, APIGatewayV2HTTPEventProcessor,
       ALBTargetGroupEventProcessor]) invalidPayload = Inl ErrUnsupportedEventType"
proof -
  let ?ps = "[APIGatewayProxyEventProcessor, APIGatewayV2HTTPEventProcessor,
       ALBTargetGroupEventProcessor]"
  have can: "\<not> CanProcess APIGatewayProxyEventProcessor newV2Request"
    "CanProcess APIGatewayV2HTTPEventProcessor newV2Request"
    by (simp_all add: CanProcess_def APIGatewayProxyEventProcessor_def
        APIGatewayV2HTTPEventProcessor_def newV2Request_def v2Payload_def present_def absent_def)
  have "\<exists>i<length ?ps. APIGatewayV2HTTPEventProcessor = ?ps ! i \<and>
      CanProcess (?ps ! i) newV2Request \<and> (\<forall>j<i. \<not> CanProcess (?ps ! j) newV2Request)"
    by (rule exI [of _ 1]) (simp add: can)
  then have 1: "Resolve (NewConditionalResolver ?ps) newV2Request =
      Inr APIGatewayV2HTTPEventProcessor"
    by (rule C4_conditional_resolver
        [of ?ps newV2Request APIGatewayV2HTTPEventProcessor, THEN conjunct1, THEN iffD2])
  have cannot: "\<not> CanProcess APIGatewayProxyEventProcessor invalidPayload"
    "\<not> CanProcess APIGatewayV2HTTPEventProcessor invalidPayload"
    "\<not> CanProcess ALBTargetGroupEventProcessor invalidPayload"
    by (simp_all add: CanProcess_def APIGatewayProxyEventProcessor_def
        APIGatewayV2HTTPEventProcessor_def ALBTargetGroupEventProcessor_def invalidPayload_def
        absent_def)
  have "\<forall>j<length ?ps. \<not> CanProcess (?ps ! j) invalidPayload"
    by (simp add: cannot less_Suc_eq all_conj_distrib numeral_3_eq_3)
  then have 2: "Resolve (NewConditionalResolver ?ps) invalidPayload = Inl ErrUnsupportedEventType"
    using C4_conditional_resolver
        [of ?ps invalidPayload APIGatewayProxyEventProcessor ErrUnsupportedEventType, THEN conjunct2, THEN conjunct1]
    by simp
  from 1 2 show ?thesis by (intro conjI)
qed

section \<open>Maps built with Add\<close>

lemma Header_Add_Values_Add: "Header_Add k v h = Values_Add (CanonicalMIMEHeaderKey k) v h"
  by (simp add: Header_Add_def Values_Add_def Let_def)

lemma index_values_Values_Add:
  "index_values (Values_Add k v q) K = index_values q K @ (if k = K then [v] else [])"
  by (simp add: Values_Add_def index_values_def update_conv')

lemma index_values_fold_Values_Add:
  "index_values (fold (\<lambda>v q. Values_Add k v q) vs q) K =
     index_values q K @ (if k = K then vs else [])"
  by (induction vs arbitrary: q) (simp_all add: index_values_Values_Add)

lemma index_values_fold_single:
  "index_values (fold (\<lambda>(k, v) q. Values_Add (f k) v q) sv q) K =
     index_values q K @ map snd (filter (\<lambda>p. f (fst p) = K) sv)"
  by (induction sv arbitrary: q) (simp_all add: index_values_Values_Add split: prod.split)

lemma index_values_fold_multi:
  "index_values (fold (\<lambda>(k, vs) q. fold (\<lambda>v q. Values_Add (f k) v q) (g vs) q) mv q) K =
     index_values q K @ concat (map (\<lambda>p. g (snd p)) (filter (\<lambda>p. f (fst p) = K) mv))"
  by (induction mv arbitrary: q) (simp_all add: index_values_fold_Values_Add split: prod.split)

text \<open>
  A map built with \<^verbatim>\<open>Add\<close> alone holds no key with an empty list of values, and no
  key twice.
\<close>

lemma set_update_subset: "set (AList.update k v al) \<subseteq> insert (k, v) (set al)"
  by (induction al) auto

lemma nonempty_Values_Add: "[] \<notin> snd ` set q \<Longrightarrow> [] \<notin> snd ` set (Values_Add k v q)"
  using set_update_subset [of k "index_values q k @ [v]" q]
  by (auto simp: Values_Add_def)

lemma nonempty_fold_Values_Add:
  "[] \<notin> snd ` set q \<Longrightarrow> [] \<notin> snd ` set (fold (\<lambda>v q. Values_Add k v q) vs q)"
  by (induction vs arbitrary: q) (simp_all add: nonempty_Values_Add)

lemma nonempty_fold_single:
  "[] \<notin> snd ` set q \<Longrightarrow> [] \<notin> snd ` set (fold (\<lambda>(k, v) q. Values_Add (f k) v q) sv q)"
  by (induction sv arbitrary: q) (simp_all add: nonempty_Values_Add split: prod.split)

lemma nonempty_fold_multi:
  "[] \<notin> snd ` set q \<Longrightarrow>
   [] \<notin> snd ` set (fold (\<lambda>(k, vs) q. fold (\<lambda>v q. Values_Add (f k) v q) (g vs) q) mv q)"
  by (induction mv arbitrary: q) (simp_all add: nonempty_fold_Values_Add split: prod.split)

lemma map_of_nonempty:
  assumes "[] \<notin> snd ` set q"
  shows "map_of q K = (case index_values q K of [] \<Rightarrow> None | v # vs \<Rightarrow> Some (v # vs))"
proof (cases "map_of q K")
  case None
  then show ?thesis by (simp add: index_values_def)
next
  case (Some vs)
  then have "(K, vs) \<in> set q" by (rule map_of_SomeD)
  with assms have "vs \<noteq> []" by force
  with Some show ?thesis by (simp add: index_values_def split: list.split)
qed

lemma distinct_Values_Add:
  "distinct (map fst q) \<Longrightarrow> distinct (map fst (Values_Add k v q))"
  by (simp add: Values_Add_def distinct_update)

lemma distinct_fold_Values_Add:
  "distinct (map fst q) \<Longrightarrow> distinct (map fst (fold (\<lambda>v q. Values_Add k v q) vs q))"
  by (induction vs arbitrary: q) (simp_all add: distinct_Values_Add)

lemma distinct_fold_single:
  "distinct (map fst q) \<Longrightarrow>
   distinct (map fst (fold (\<lambda>(k, v) q. Values_Add (f k) v q) sv q))"
  by (induction sv arbitrary: q) (simp_all add: distinct_Values_Add split: prod.split)

lemma distinct_fold_multi:
  "distinct (map fst q) \<Longrightarrow>
   distinct (map fst (fold (\<lambda>(k, vs) q. fold (\<lambda>v q. Values_Add (f k) v q) (g vs) q) mv q))"
  by (induction mv arbitrary: q) (simp_all add: distinct_fold_Values_Add split: prod.split)

text \<open>\<^verbatim>\<open>mergeMaps\<close> into an empty map, with \<^verbatim>\<open>url.Values.Add\<close> and with \<^verbatim>\<open>http.Header.Add\<close>.\<close>

lemma mergeMaps_Values_fold:
  "mergeMaps sv mv Values_Add q =
     fold (\<lambda>(k, vs) q. fold (\<lambda>v q. Values_Add ((\<lambda>k. k) k) v q) ((\<lambda>vs. vs) vs) q) (entries mv)
       (fold (\<lambda>(k, v) q. Values_Add ((\<lambda>k. k) k) v q) (entries sv) q)"
  by (simp add: mergeMaps_def)

lemma mergeMaps_Header_fold:
  "mergeMaps sv mv Header_Add h =
     fold (\<lambda>(k, vs) q. fold (\<lambda>v q. Values_Add (CanonicalMIMEHeaderKey k) v q) ((\<lambda>vs. vs) vs) q)
       (entries mv)
       (fold (\<lambda>(k, v) q. Values_Add (CanonicalMIMEHeaderKey k) v q) (entries sv) h)"
  by (simp add: mergeMaps_def Header_Add_Values_Add)

lemma index_values_Nil: "index_values [] K = []"
  by (simp add: index_values_def)

lemma index_values_mergeMaps_Values:
  "index_values (mergeMaps sv mv Values_Add []) K =
     map snd (filter (\<lambda>p. fst p = K) (entries sv)) @
     concat (map snd (filter (\<lambda>p. fst p = K) (entries mv)))"
  unfolding mergeMaps_Values_fold
  by (simp only: index_values_fold_multi index_values_fold_single index_values_Nil append_Nil)

lemma index_values_mergeMaps_Header:
  "index_values (mergeMaps sv mv Header_Add []) K =
     map snd (filter (\<lambda>p. CanonicalMIMEHeaderKey (fst p) = K) (entries sv)) @
     concat (map snd (filter (\<lambda>p. CanonicalMIMEHeaderKey (fst p) = K) (entries mv)))"
  unfolding mergeMaps_Header_fold
  by (simp only: index_values_fold_multi index_values_fold_single index_values_Nil append_Nil)

lemma nonempty_mergeMaps_Values: "[] \<notin> snd ` set (mergeMaps sv mv Values_Add [])"
  unfolding mergeMaps_Values_fold
  by (intro nonempty_fold_multi nonempty_fold_single) simp

lemma nonempty_mergeMaps_Header: "[] \<notin> snd ` set (mergeMaps sv mv Header_Add [])"
  unfolding mergeMaps_Header_fold
  by (intro nonempty_fold_multi nonempty_fold_single) simp

lemma distinct_mergeMaps_Values: "distinct (map fst (mergeMaps sv mv Values_Add []))"
  unfolding mergeMaps_Values_fold
  by (intro distinct_fold_multi distinct_fold_single) simp

lemma distinct_mergeMaps_Header: "distinct (map fst (mergeMaps sv mv Header_Add []))"
  unfolding mergeMaps_Header_fold
  by (intro distinct_fold_multi distinct_fold_single) simp

section \<open>The Load-Balancer decoder\<close>

text \<open>
  C7. The Load-Balancer decoder accepts every payload that decodes to a Load-Balancer
  event \<open>e\<close>. The path-parameter map of the request is the empty map. For every key,
  the values of the query map are the values of the single-value entries of that key
  followed by the values of its multi-value entries; the header map is formed in the
  same way, under the canonical form of the keys, which is what \<^verbatim>\<open>http.Header.Add\<close>
  stores. Both maps are non-nil and hold exactly the keys that received a value, each
  once. The
  single-value map \<^verbatim>\<open>{"q1":"v1"}\<close> with an absent multi-value map yields
  \<^verbatim>\<open>{"q1":["v1"]}\<close>; the multi-value map \<^verbatim>\<open>{"q2":["v2","v3"]}\<close> with no single-value
  map yields \<^verbatim>\<open>{"q2":["v2","v3"]}\<close>.
\<close>

theorem C7_alb_merge:
  "(\<exists>q h.
      UnmarshalRequest ALBTargetGroupEventProcessor
          (pl\<lparr>json_Unmarshal_ALBTargetGroupRequest := Inr e\<rparr>) =
        Inr \<lparr>Method = ALBTargetGroupRequest.HTTPMethod e,
             RawPath = ALBTargetGroupRequest.Path e,
             Request.Path = Some [],
             Query = Some q,
             Header = Some h,
             Request.Body = ALBTargetGroupRequest.Body e,
             Event = ALBEvent e\<rparr>
      \<and> (\<forall>k. index_values q k =
             singleValues (\<lambda>k. k) (ALBTargetGroupRequest.QueryStringParameters e) k @
             multiValues (\<lambda>k. k) (ALBTargetGroupRequest.MultiValueQueryStringParameters e) k)
      \<and> (\<forall>k. map_of q k = (case index_values q k of [] \<Rightarrow> None | v # vs \<Rightarrow> Some (v # vs)))
      \<and> (\<forall>k. index_values h k =
             singleValues CanonicalMIMEHeaderKey (ALBTargetGroupRequest.Headers e) k @
             multiValues CanonicalMIMEHeaderKey (ALBTargetGroupRequest.MultiValueHeaders e) k)
      \<and> (\<forall>k. map_of h k = (case index_values h k of [] \<Rightarrow> None | v # vs \<Rightarrow> Some (v # vs)))
      \<and> distinct (map fst q) \<and> distinct (map fst h))
   \<and> UnmarshalRequest ALBTargetGroupEventProcessor
         (albPayload (zeroALBRequest
            \<lparr>ALBTargetGroupRequest.QueryStringParameters := Some [(''q1'', ''v1'')]\<rparr>)) =
       Inr \<lparr>Method = [], RawPath = [], Request.Path = Some [],
            Query = Some [(''q1'', [''v1''])],
            Header = Some [],
            Request.Body = [],
            Event = ALBEvent (zeroALBRequest
              \<lparr>ALBTargetGroupRequest.QueryStringParameters := Some [(''q1'', ''v1'')]\<rparr>)\<rparr>
   \<and> UnmarshalRequest ALBTargetGroupEventProcessor
         (albPayload (zeroALBRequest
            \<lparr>ALBTargetGroupRequest.MultiValueQueryStringParameters :=
               Some [(''q2'', [''v2'', ''v3''])]\<rparr>)) =
       Inr \<lparr>Method = [], RawPath = [], Request.Path = Some [],
            Query = Some [(''q2'', [''v2'', ''v3''])],
            Header = Some [],
            Request.Body = [],
            Event = ALBEvent (zeroALBRequest
              \<lparr>ALBTargetGroupRequest.MultiValueQueryStringParameters :=
                 Some [(''q2'', [''v2'', ''v3''])]\<rparr>)\<rparr>"
proof (intro conjI)
  let ?q = "mergeMaps (ALBTargetGroupRequest.QueryStringParameters e)
              (ALBTargetGroupRequest.MultiValueQueryStringParameters e) Values_Add []"
  let ?h = "mergeMaps (ALBTargetGroupRequest.Headers e)
              (ALBTargetGroupRequest.MultiValueHeaders e) Header_Add []"
  have dec: "UnmarshalRequest ALBTargetGroupEventProcessor
          (pl\<lparr>json_Unmarshal_ALBTargetGroupRequest := Inr e\<rparr>) =
        Inr \<lparr>Method = ALBTargetGroupRequest.HTTPMethod e,
             RawPath = ALBTargetGroupRequest.Path e,
             Request.Path = Some [],
             Query = Some ?q,
             Header = Some ?h,
             Request.Body = ALBTargetGroupRequest.Body e,
             Event = ALBEvent e\<rparr>"
    by (simp add: UnmarshalRequest_def ALBTargetGroupEventProcessor_def)
  have q1: "\<forall>k. index_values ?q k =
             singleValues (\<lambda>k. k) (ALBTargetGroupRequest.QueryStringParameters e) k @
             multiValues (\<lambda>k. k) (ALBTargetGroupRequest.MultiValueQueryStringParameters e) k"
    by (simp add: index_values_mergeMaps_Values singleValues_def multiValues_def)
  have q2: "\<forall>k. map_of ?q k =
      (case index_values ?q k of [] \<Rightarrow> None | v # vs \<Rightarrow> Some (v # vs))"
    using map_of_nonempty [OF nonempty_mergeMaps_Values] by blast
  have h1: "\<forall>k. index_values ?h k =
             singleValues CanonicalMIMEHeaderKey (ALBTargetGroupRequest.Headers e) k @
             multiValues CanonicalMIMEHeaderKey (ALBTargetGroupRequest.MultiValueHeaders e) k"
    by (simp add: index_values_mergeMaps_Header singleValues_def multiValues_def)
  have h2: "\<forall>k. map_of ?h k =
      (case index_values ?h k of [] \<Rightarrow> None | v # vs \<Rightarrow> Some (v # vs))"
    using map_of_nonempty [OF nonempty_mergeMaps_Header] by blast
  show "\<exists>q h.
      UnmarshalRequest ALBTargetGroupEventProcessor
          (pl\<lparr>json_Unmarshal_ALBTargetGroupRequest := Inr e\<rparr>) =
        Inr \<lparr>Method = ALBTargetGroupRequest.HTTPMethod e,
             RawPath = ALBTargetGroupRequest.Path e,
             Request.Path = Some [],
             Query = Some q,
             Header = Some h,
             Request.Body = ALBTargetGroupRequest.Body e,
             Event = ALBEvent e\<rparr>
      \<and> (\<forall>k. index_values q k =
             singleValues (\<lambda>k. k) (ALBTargetGroupRequest.QueryStringParameters e) k @
             multiValues (\<lambda>k. k) (ALBTargetGroupRequest.MultiValueQueryStringParameters e) k)
      \<and> (\<forall>k. map_of q k = (case index_values q k of [] \<Rightarrow> None | v # vs \<Rightarrow> Some (v # vs)))
      \<and> (\<forall>k. index_values h k =
             singleValues CanonicalMIMEHeaderKey (ALBTargetGroupRequest.Headers e) k @
             multiValues CanonicalMIMEHeaderKey (ALBTargetGroupRequest.MultiValueHeaders e) k)
      \<and> (\<forall>k. map_of h k = (case index_values h k of [] \<Rightarrow> None | v # vs \<Rightarrow> Some (v # vs)))
      \<and> distinct (map fst q) \<and> distinct (map fst h)"
    by (rule exI [of _ ?q], rule exI [of _ ?h])
      (intro conjI dec q1 q2 h1 h2 distinct_mergeMaps_Values distinct_mergeMaps_Header)
next
  show "UnmarshalRequest ALBTargetGroupEventProcessor
         (albPayload (zeroALBRequest
            \<lparr>ALBTargetGroupRequest.QueryStringParameters := Some [(''q1'', ''v1'')]\<rparr>)) =
       Inr \<lparr>Method = [], RawPath = [], Request.Path = Some [],
            Query = Some [(''q1'', [''v1''])],
            Header = Some [],
            Request.Body = [],
            Event = ALBEvent (zeroALBRequest
              \<lparr>ALBTargetGroupRequest.QueryStringParameters := Some [(''q1'', ''v1'')]\<rparr>)\<rparr>"
    by (simp add: UnmarshalRequest_def ALBTargetGroupEventProcessor_def albPayload_def
        zeroALBRequest_def mergeMaps_def entries_def Values_Add_def index_values_def)
next
  show "UnmarshalRequest ALBTargetGroupEventProcessor
         (albPayload (zeroALBRequest
            \<lparr>ALBTargetGroupRequest.MultiValueQueryStringParameters :=
               Some [(''q2'', [''v2'', ''v3''])]\<rparr>)) =
       Inr \<lparr>Method = [], RawPath = [], Request.Path = Some [],
            Query = Some [(''q2'', [''v2'', ''v3''])],
            Header = Some [],
            Request.Body = [],
            Event = ALBEvent (zeroALBRequest
              \<lparr>ALBTargetGroupRequest.MultiValueQueryStringParameters :=
                 Some [(''q2'', [''v2'', ''v3''])]\<rparr>)\<rparr>"
    by (simp add: UnmarshalRequest_def ALBTargetGroupEventProcessor_def albPayload_def
        zeroALBRequest_def mergeMaps_def entries_def Values_Add_def index_values_def)
qed

section \<open>The Gateway-V2 decoder\<close>

lemma filter_key_distinct:
  "distinct (map fst al) \<Longrightarrow> map_of al k = Some v \<Longrightarrow> filter (\<lambda>p. fst p = k) al = [(k, v)]"
proof (induction al)
  case Nil
  then show ?case by simp
next
  case (Cons p al)
  show ?case
  proof (cases "fst p = k")
    case True
    with Cons.prems have v: "snd p = v" by simp
    from True Cons.prems have "k \<notin> fst ` set al" by auto
    then have "filter (\<lambda>p. fst p = k) al = []"
      by (auto simp: filter_empty_conv)
    with True v show ?thesis by (cases p) simp
  next
    case False
    with Cons show ?thesis by simp
  qed
qed

text \<open>The query map and the header map that the Gateway-V2 decoder builds.\<close>

lemma UnmarshalRequest_V2:
  "UnmarshalRequest APIGatewayV2HTTPEventProcessor
      (pl\<lparr>json_Unmarshal_APIGatewayV2HTTPRequest := Inr e\<rparr>) =
    Inr \<lparr>Method = APIGatewayV2HTTPRequestContextHTTPDescription.Method (HTTP (RequestContext e)),
         RawPath = APIGatewayV2HTTPRequestContextHTTPDescription.Path (HTTP (RequestContext e)),
         Request.Path = APIGatewayV2HTTPRequest.PathParameters e,
         Query = Some (fold (\<lambda>(k, ps) q1.
                   fold (\<lambda>v q2. Values_Add k v q2) (strings_Split ps (CHR '','')) q1)
                   (entries (APIGatewayV2HTTPRequest.QueryStringParameters e)) []),
         Header = Some (mergeMaps (APIGatewayV2HTTPRequest.Headers e) None Header_Add []),
         Request.Body = APIGatewayV2HTTPRequest.Body e,
         Event = V2Event e\<rparr>"
  by (simp add: UnmarshalRequest_def APIGatewayV2HTTPEventProcessor_def)

lemma index_values_V2_query:
  "index_values (fold (\<lambda>(k, ps) q1.
       fold (\<lambda>v q2. Values_Add k v q2) (strings_Split ps (CHR '','')) q1) qs []) K =
     concat (map (\<lambda>p. strings_Split (snd p) (CHR '','')) (filter (\<lambda>p. fst p = K) qs))"
  using index_values_fold_multi
    [where f = "\<lambda>k. k" and g = "\<lambda>ps. strings_Split ps (CHR '','')" and mv = qs and q = "[]"
      and K = K]
  by (simp add: index_values_Nil)

lemma nonempty_V2_query:
  "[] \<notin> snd ` set (fold (\<lambda>(k, ps) q1.
       fold (\<lambda>v q2. Values_Add k v q2) (strings_Split ps (CHR '','')) q1) qs [])"
  using nonempty_fold_multi
    [where f = "\<lambda>k. k" and g = "\<lambda>ps. strings_Split ps (CHR '','')" and mv = qs and q = "[]"]
  by simp

text \<open>
  C10. Splitting the empty string on a comma yields one empty piece. So, for the
  Gateway-V2 decoder, a query-string parameter \<open>k\<close> that the payload carries with the
  empty string as its value (the keys of a map being distinct) is a key of the decoded
  query map, and its value is the one-element list holding the empty string: it is
  neither dropped nor mapped to an empty list. The payload map \<^verbatim>\<open>{"q":""}\<close> decodes
  to \<^verbatim>\<open>{"q":[""]}\<close>.
\<close>

theorem C10_v2_empty_query_value:
  "strings_Split [] (CHR '','') = [[]]
   \<and> (map_of qs k = Some [] \<and> distinct (map fst qs) \<longrightarrow>
        (\<exists>req q. UnmarshalRequest APIGatewayV2HTTPEventProcessor
             (pl\<lparr>json_Unmarshal_APIGatewayV2HTTPRequest :=
                  Inr (e\<lparr>APIGatewayV2HTTPRequest.QueryStringParameters := Some qs\<rparr>)\<rparr>) = Inr req
           \<and> Query req = Some q \<and> map_of q k = Some [[]]))
   \<and> UnmarshalRequest APIGatewayV2HTTPEventProcessor
         (v2Payload (zeroV2Request
            \<lparr>APIGatewayV2HTTPRequest.QueryStringParameters := Some [(''q'', [])]\<rparr>)) =
       Inr \<lparr>Method = [], RawPath = [], Request.Path = None,
            Query = Some [(''q'', [[]])],
            Header = Some [],
            Request.Body = [],
            Event = V2Event (zeroV2Request
              \<lparr>APIGatewayV2HTTPRequest.QueryStringParameters := Some [(''q'', [])]\<rparr>)\<rparr>"
proof (intro conjI impI)
  show "strings_Split [] (CHR '','') = [[]]" by simp
next
  assume a: "map_of qs k = Some [] \<and> distinct (map fst qs)"
  let ?e = "e\<lparr>APIGatewayV2HTTPRequest.QueryStringParameters := Some qs\<rparr>"
  let ?q = "fold (\<lambda>(k, ps) q1.
       fold (\<lambda>v q2. Values_Add k v q2) (strings_Split ps (CHR '','')) q1) qs []"
  from a have f: "filter (\<lambda>p. fst p = k) qs = [(k, [])]"
    by (simp add: filter_key_distinct)
  have "index_values ?q k = [[]]"
    by (simp add: index_values_V2_query f)
  then have m: "map_of ?q k = Some [[]]"
    using map_of_nonempty [OF nonempty_V2_query, of qs k] by simp
  have "UnmarshalRequest APIGatewayV2HTTPEventProcessor
      (pl\<lparr>json_Unmarshal_APIGatewayV2HTTPRequest := Inr ?e\<rparr>) =
    Inr \<lparr>Method = APIGatewayV2HTTPRequestContextHTTPDescription.Method (HTTP (RequestContext ?e)),
         RawPath = APIGatewayV2HTTPRequestContextHTTPDescription.Path (HTTP (RequestContext ?e)),
         Request.Path = APIGatewayV2HTTPRequest.PathParameters ?e,
         Query = Some ?q,
         Header = Some (mergeMaps (APIGatewayV2HTTPRequest.Headers ?e) None Header_Add []),
         Request.Body = APIGatewayV2HTTPRequest.Body ?e,
         Event = V2Event ?e\<rparr>"
    using UnmarshalRequest_V2 [where pl = pl and e = ?e] by (simp add: entries_def)
  with m show "\<exists>req q. UnmarshalRequest APIGatewayV2HTTPEventProcessor
             (pl\<lparr>json_Unmarshal_APIGatewayV2HTTPRequest := Inr ?e\<rparr>) = Inr req
           \<and> Query req = Some q \<and> map_of q k = Some [[]]"
    by simp
next
  show "UnmarshalRequest APIGatewayV2HTTPEventProcessor
         (v2Payload (zeroV2Request
            \<lparr>APIGatewayV2HTTPRequest.QueryStringParameters := Some [(''q'', [])]\<rparr>)) =
       Inr \<lparr>Method = [], RawPath = [], Request.Path = None,
            Query = Some [(''q'', [[]])],
            Header = Some [],
            Request.Body = [],
            Event = V2Event (zeroV2Request
              \<lparr>APIGatewayV2HTTPRequest.QueryStringParameters := Some [(''q'', [])]\<rparr>)\<rparr>"
    by (simp add: UnmarshalRequest_def APIGatewayV2HTTPEventProcessor_def v2Payload_def
        zeroV2Request_def mergeMaps_def entries_def Values_Add_def index_values_def)
qed

text \<open>
  The hypotheses of C10 hold for the payload map \<^verbatim>\<open>{"a":"1,2","q":""}\<close>: the key \<open>q\<close>
  is in the decoded query map with the value \<^verbatim>\<open>[""]\<close>.
\<close>

theorem C10_v2_empty_query_value_witness:
  "map_of [(''a'', ''1,2''), (''q'', [])] ''q'' = Some []
   \<and> distinct (map fst [(''a'', ''1,2''), (''q'', [])])
   \<and> (\<exists>req q. UnmarshalRequest APIGatewayV2HTTPEventProcessor
         (newV2Request\<lparr>json_Unmarshal_APIGatewayV2HTTPRequest :=
            Inr (zeroV2Request\<lparr>APIGatewayV2HTTPRequest.QueryStringParameters :=
                   Some [(''a'', ''1,2''), (''q'', [])]\<rparr>)\<rparr>) = Inr req
        \<and> Query req = Some q \<and> map_of q ''q'' = Some [[]])"
proof -
  have h: "map_of [(''a'', ''1,2''), (''q'', [])] ''q'' = Some [] \<and>
      distinct (map fst [(''a'', ''1,2''), (''q'', [])])"
    by simp
  from mp [OF C10_v2_empty_query_value
      [where qs = "[(''a'', ''1,2''), (''q'', [])]" and k = "''q''" and pl = newV2Request
        and e = zeroV2Request, THEN conjunct2, THEN conjunct1] h] h
  show ?thesis by (intro conjI) simp_all
qed

section \<open>Bind\<close>

text \<open>
  C8. For every context, decoder and target: when the body of the request is the
  empty string, \<open>Bind\<close> returns no error and leaves the target and the context as they
  are (the bind callback does not run). When the body is not empty and decoding it
  fails, \<open>Bind\<close> returns the decoder's error wrapped in a Status Error with code 400
  and leaves the context as it is. When decoding succeeds, \<open>Bind\<close> is one call of the
  context's bind callback on the decoded target: it returns the callback's error as it
  is, the target and the response as the callback leaves them.
\<close>

theorem C8_bind:
  "(Request.Body (request c) = [] \<longrightarrow> Bind c json_Unmarshal v = (None, v, c))
   \<and> (Request.Body (request c) \<noteq> [] \<and>
        json_Unmarshal (Request.Body (request c)) v = (Some err, v') \<longrightarrow>
          Bind c json_Unmarshal v = (Some (WrapError StatusBadRequest err), v', c)
          \<and> Code (WrapError StatusBadRequest err) = Some 400
          \<and> StatusCode (WrapError StatusBadRequest err) = 400)
   \<and> (Request.Body (request c) \<noteq> [] \<and>
        json_Unmarshal (Request.Body (request c)) v = (None, v') \<longrightarrow>
          Bind c json_Unmarshal v =
            (case onBind c (request c) (response c) v' of
               (r, v'', res) \<Rightarrow> (r, v'', c\<lparr>response := res\<rparr>)))
   \<and> Invoke (NewWithConfig (emptyConfig\<lparr>OnBind := Some markingOnBind\<rparr>)
         (\<lambda>c. case Bind c testUnmarshal [] of (err, v, c') \<Rightarrow> (err, c')))
       (v2Payload (zeroV2Request\<lparr>APIGatewayV2HTTPRequest.Body := ''{\"key\":\"value\"}''\<rparr>)) =
       Inr (V2Response
         \<lparr>APIGatewayV2HTTPResponse.StatusCode = 500,
          APIGatewayV2HTTPResponse.Headers = [(''Content-Type'', ''application/json'')],
          APIGatewayV2HTTPResponse.MultiValueHeaders =
            [(''Content-Type'', [''application/json''])],
          APIGatewayV2HTTPResponse.Body = ''{\"message\":\"invalid\"}'',
          APIGatewayV2HTTPResponse.IsBase64Encoded = False,
          Cookies = []\<rparr>)
   \<and> Invoke (New
         (\<lambda>c. case Bind c testUnmarshal [] of
                 (None, v, c') \<Rightarrow> String c' StatusOK v
               | (Some err, v, c') \<Rightarrow> (Some err, c')))
       (v2Payload (zeroV2Request\<lparr>APIGatewayV2HTTPRequest.Body := ''{\"key\":\"value\"}''\<rparr>)) =
       Inr (V2Response
         \<lparr>APIGatewayV2HTTPResponse.StatusCode = 200,
          APIGatewayV2HTTPResponse.Headers = [(''Content-Type'', ''text/plain'')],
          APIGatewayV2HTTPResponse.MultiValueHeaders = [(''Content-Type'', [''text/plain''])],
          APIGatewayV2HTTPResponse.Body = ''value'',
          APIGatewayV2HTTPResponse.IsBase64Encoded = False,
          Cookies = []\<rparr>)"
proof (intro conjI)
  show "Invoke (NewWithConfig (emptyConfig\<lparr>OnBind := Some markingOnBind\<rparr>)
         (\<lambda>c. case Bind c testUnmarshal [] of (err, v, c') \<Rightarrow> (err, c')))
       (v2Payload (zeroV2Request\<lparr>APIGatewayV2HTTPRequest.Body := ''{\"key\":\"value\"}''\<rparr>)) =
       Inr (V2Response
         \<lparr>APIGatewayV2HTTPResponse.StatusCode = 500,
          APIGatewayV2HTTPResponse.Headers = [(''Content-Type'', ''application/json'')],
          APIGatewayV2HTTPResponse.MultiValueHeaders =
            [(''Content-Type'', [''application/json''])],
          APIGatewayV2HTTPResponse.Body = ''{\"message\":\"invalid\"}'',
          APIGatewayV2HTTPResponse.IsBase64Encoded = False,
          Cookies = []\<rparr>)"
    by code_simp
  show "Invoke (New
         (\<lambda>c. case Bind c testUnmarshal [] of
                 (None, v, c') \<Rightarrow> String c' StatusOK v
               | (Some err, v, c') \<Rightarrow> (Some err, c')))
       (v2Payload (zeroV2Request\<lparr>APIGatewayV2HTTPRequest.Body := ''{\"key\":\"value\"}''\<rparr>)) =
       Inr (V2Response
         \<lparr>APIGatewayV2HTTPResponse.StatusCode = 200,
          APIGatewayV2HTTPResponse.Headers = [(''Content-Type'', ''text/plain'')],
          APIGatewayV2HTTPResponse.MultiValueHeaders = [(''Content-Type'', [''text/plain''])],
          APIGatewayV2HTTPResponse.Body = ''value'',
          APIGatewayV2HTTPResponse.IsBase64Encoded = False,
          Cookies = []\<rparr>)"
    by code_simp
qed (simp_all add: Bind_def WrapError_def StatusBadRequest_def StatusCode_def)

text \<open>
  The three cases of C8 on the requests of the tests, with a callback that marks the
  response each time it runs and fails: on the body \<^verbatim>\<open>{"key":"value"}\<close> the target is
  populated, the response carries one mark and the error is the callback's own.
\<close>

theorem C8_bind_witness:
  "Bind (newContext (testRequest []) markingOnBind) testUnmarshal [] =
     (None, [], newContext (testRequest []) markingOnBind)
   \<and> Bind (newContext (testRequest ''{'') markingOnBind) testUnmarshal [] =
       (Some (StatusError 400 (otherError ''unexpected end of JSON input'' None None)), [],
        newContext (testRequest ''{'') markingOnBind)
   \<and> Bind (newContext (testRequest ''{\"key\":\"value\"}'') markingOnBind) testUnmarshal [] =
       (Some (errorString ''invalid''), ''value'',
        (newContext (testRequest ''{\"key\":\"value\"}'') markingOnBind)
          \<lparr>response := \<lparr>Response.StatusCode = 0, Response.Headers = [],
                         Response.Body = ''x''\<rparr>\<rparr>)"
proof (intro conjI)
  let ?c1 = "newContext (testRequest []) markingOnBind"
  have h1: "Request.Body (request ?c1) = []"
    by (simp add: newContext_def testRequest_def)
  from mp [OF C8_bind [where c = ?c1 and json_Unmarshal = testUnmarshal and v = "[]",
      THEN conjunct1] h1]
  show "Bind ?c1 testUnmarshal [] = (None, [], ?c1)" .
next
  let ?c2 = "newContext (testRequest ''{'') markingOnBind"
  let ?err = "otherError ''unexpected end of JSON input'' None None"
  have h2: "Request.Body (request ?c2) \<noteq> [] \<and>
      testUnmarshal (Request.Body (request ?c2)) [] = (Some ?err, [])"
    by (simp add: newContext_def testRequest_def testUnmarshal_def)
  from mp [OF C8_bind [where c = ?c2 and json_Unmarshal = testUnmarshal and v = "[]"
      and err = ?err and v' = "[]", THEN conjunct2, THEN conjunct1] h2]
  show "Bind ?c2 testUnmarshal [] = (Some (StatusError 400 ?err), [], ?c2)"
    by (simp add: WrapError_def StatusBadRequest_def)
next
  let ?c3 = "newContext (testRequest ''{\"key\":\"value\"}'') markingOnBind"
  have h3: "Request.Body (request ?c3) \<noteq> [] \<and>
      testUnmarshal (Request.Body (request ?c3)) [] = (None, ''value'')"
    by (simp add: newContext_def testRequest_def testUnmarshal_def)
  from mp [OF C8_bind [where c = ?c3 and json_Unmarshal = testUnmarshal and v = "[]"
      and v' = "''value''", THEN conjunct2, THEN conjunct2, THEN conjunct1] h3]
  show "Bind ?c3 testUnmarshal [] =
       (Some (errorString ''invalid''), ''value'',
        ?c3\<lparr>response := \<lparr>Response.StatusCode = 0, Response.Headers = [],
                         Response.Body = ''x''\<rparr>\<rparr>)"
    by (simp add: newContext_def markingOnBind_def)
qed

section \<open>The maps of a decoded request\<close>

lemma UnmarshalRequest_Proxy:
  "UnmarshalRequest APIGatewayProxyEventProcessor
      (pl\<lparr>json_Unmarshal_APIGatewayProxyRequest := Inr e\<rparr>) =
    Inr \<lparr>Method = APIGatewayProxyRequest.HTTPMethod e,
         RawPath = APIGatewayProxyRequest.Path e,
         Request.Path = APIGatewayProxyRequest.PathParameters e,
         Query = APIGatewayProxyRequest.MultiValueQueryStringParameters e,
         Header = APIGatewayProxyRequest.MultiValueHeaders e,
         Request.Body = APIGatewayProxyRequest.Body e,
         Event = ProxyEvent e\<rparr>"
  by (simp add: UnmarshalRequest_def APIGatewayProxyEventProcessor_def)

lemma UnmarshalRequest_ALB:
  "UnmarshalRequest ALBTargetGroupEventProcessor
      (pl\<lparr>json_Unmarshal_ALBTargetGroupRequest := Inr e\<rparr>) =
    Inr \<lparr>Method = ALBTargetGroupRequest.HTTPMethod e,
         RawPath = ALBTargetGroupRequest.Path e,
         Request.Path = Some [],
         Query = Some (mergeMaps (ALBTargetGroupRequest.QueryStringParameters e)
                   (ALBTargetGroupRequest.MultiValueQueryStringParameters e) Values_Add []),
         Header = Some (mergeMaps (ALBTargetGroupRequest.Headers e)
                   (ALBTargetGroupRequest.MultiValueHeaders e) Header_Add []),
         Request.Body = ALBTargetGroupRequest.Body e,
         Event = ALBEvent e\<rparr>"
  by (simp add: UnmarshalRequest_def ALBTargetGroupEventProcessor_def)

text \<open>
  C1, as the specification states it, fails: the Gateway-Proxy decoder accepts a payload
  that carries none of \<^verbatim>\<open>pathParameters\<close>, \<^verbatim>\<open>multiValueQueryStringParameters\<close> and
  \<^verbatim>\<open>multiValueHeaders\<close>, and the three maps of the decoded request are nil; the
  Gateway-V2 decoder accepts \<^verbatim>\<open>newV2Request(nil)\<close>, and the path-parameter map of the
  decoded request is nil.
\<close>

theorem C1_nil_maps_counterexample:
  "UnmarshalRequest APIGatewayProxyEventProcessor (proxyPayload zeroProxyRequest) =
     Inr \<lparr>Method = [], RawPath = [], Request.Path = None, Query = None, Header = None,
          Request.Body = [], Event = ProxyEvent zeroProxyRequest\<rparr>
   \<and> UnmarshalRequest APIGatewayV2HTTPEventProcessor newV2Request =
       Inr \<lparr>Method = [], RawPath = [], Request.Path = None, Query = Some [], Header = Some [],
            Request.Body = [], Event = V2Event zeroV2Request\<rparr>"
  by (simp add: UnmarshalRequest_def APIGatewayProxyEventProcessor_def
      APIGatewayV2HTTPEventProcessor_def proxyPayload_def newV2Request_def v2Payload_def
      zeroProxyRequest_def zeroV2Request_def mergeMaps_def entries_def)

text \<open>
  C1, amended. A built-in processor accepts a payload exactly when \<^verbatim>\<open>json.Unmarshal\<close>
  decodes it to the processor's event type. Of the decoded request,
  \<^item> the Load-Balancer decoder returns an empty, non-nil path-parameter map and non-nil
    query and header maps;
  \<^item> the Gateway-V2 decoder returns non-nil query and header maps, and as
    path-parameter map the map of the event, nil when the payload carries none;
  \<^item> the Gateway-Proxy decoder returns the three maps of the event, each nil when the
    payload does not carry it.
  Reading a nil map with \<^verbatim>\<open>Path(key)\<close>, \<^verbatim>\<open>Query(key)\<close> or \<^verbatim>\<open>Header.Get(key)\<close> returns
  the empty string, as reading an empty map does.
\<close>

theorem C1_decoded_maps:
  "(\<exists>req. UnmarshalRequest ALBTargetGroupEventProcessor
             (pl\<lparr>json_Unmarshal_ALBTargetGroupRequest := Inr ea\<rparr>) = Inr req
          \<and> Request.Path req = Some [] \<and> Query req \<noteq> None \<and> Header req \<noteq> None)
   \<and> (\<exists>req. UnmarshalRequest APIGatewayV2HTTPEventProcessor
             (pl\<lparr>json_Unmarshal_APIGatewayV2HTTPRequest := Inr ev\<rparr>) = Inr req
          \<and> Request.Path req = APIGatewayV2HTTPRequest.PathParameters ev
          \<and> Query req \<noteq> None \<and> Header req \<noteq> None)
   \<and> (\<exists>req. UnmarshalRequest APIGatewayProxyEventProcessor
             (pl\<lparr>json_Unmarshal_APIGatewayProxyRequest := Inr ep\<rparr>) = Inr req
          \<and> Request.Path req = APIGatewayProxyRequest.PathParameters ep
          \<and> Query req = APIGatewayProxyRequest.MultiValueQueryStringParameters ep
          \<and> Header req = APIGatewayProxyRequest.MultiValueHeaders ep)
   \<and> UnmarshalRequest ALBTargetGroupEventProcessor
         (pl\<lparr>json_Unmarshal_ALBTargetGroupRequest := Inl err\<rparr>) = Inl err
   \<and> UnmarshalRequest APIGatewayV2HTTPEventProcessor
         (pl\<lparr>json_Unmarshal_APIGatewayV2HTTPRequest := Inl err\<rparr>) = Inl err
   \<and> UnmarshalRequest APIGatewayProxyEventProcessor
         (pl\<lparr>json_Unmarshal_APIGatewayProxyRequest := Inl err\<rparr>) = Inl err
   \<and> handlerContext_Path (c\<lparr>request := (request c)\<lparr>Request.Path := None\<rparr>\<rparr>) key = []
   \<and> handlerContext_Path (c\<lparr>request := (request c)\<lparr>Request.Path := Some []\<rparr>\<rparr>) key = []
   \<and> handlerContext_Query (c\<lparr>request := (request c)\<lparr>Query := None\<rparr>\<rparr>) key = []
   \<and> handlerContext_Query (c\<lparr>request := (request c)\<lparr>Query := Some []\<rparr>\<rparr>) key = []
   \<and> Header_Get (entries None) key = []
   \<and> Header_Get (entries (Some [])) key = []"
proof (intro conjI)
  show "\<exists>req. UnmarshalRequest ALBTargetGroupEventProcessor
             (pl\<lparr>json_Unmarshal_ALBTargetGroupRequest := Inr ea\<rparr>) = Inr req
          \<and> Request.Path req = Some [] \<and> Query req \<noteq> None \<and> Header req \<noteq> None"
    by (simp add: UnmarshalRequest_ALB)
  show "\<exists>req. UnmarshalRequest APIGatewayV2HTTPEventProcessor
             (pl\<lparr>json_Unmarshal_APIGatewayV2HTTPRequest := Inr ev\<rparr>) = Inr req
          \<and> Request.Path req = APIGatewayV2HTTPRequest.PathParameters ev
          \<and> Query req \<noteq> None \<and> Header req \<noteq> None"
    by (simp add: UnmarshalRequest_V2)
  show "\<exists>req. UnmarshalRequest APIGatewayProxyEventProcessor
             (pl\<lparr>json_Unmarshal_APIGatewayProxyRequest := Inr ep\<rparr>) = Inr req
          \<and> Request.Path req = APIGatewayProxyRequest.PathParameters ep
          \<and> Query req = APIGatewayProxyRequest.MultiValueQueryStringParameters ep
          \<and> Header req = APIGatewayProxyRequest.MultiValueHeaders ep"
    by (simp add: UnmarshalRequest_Proxy)
  show "UnmarshalRequest ALBTargetGroupEventProcessor
         (pl\<lparr>json_Unmarshal_ALBTargetGroupRequest := Inl err\<rparr>) = Inl err"
    by (simp add: UnmarshalRequest_def ALBTargetGroupEventProcessor_def)
  show "UnmarshalRequest APIGatewayV2HTTPEventProcessor
         (pl\<lparr>json_Unmarshal_APIGatewayV2HTTPRequest := Inl err\<rparr>) = Inl err"
    by (simp add: UnmarshalRequest_def APIGatewayV2HTTPEventProcessor_def)
  show "UnmarshalRequest APIGatewayProxyEventProcessor
         (pl\<lparr>json_Unmarshal_APIGatewayProxyRequest := Inl err\<rparr>) = Inl err"
    by (simp add: UnmarshalRequest_def APIGatewayProxyEventProcessor_def)
qed (simp_all add: handlerContext_Path_def handlerContext_Query_def Header_Get_def
    Values_Get_def index_string_def index_values_def entries_def)

section \<open>The order of the stages\<close>




section \<open>Header keys that are not in canonical form\<close>

text \<open>
  C3 at a failing input. The Gateway-Proxy payload carries the header
  \<^verbatim>\<open>"multiValueHeaders": {"x-custom-header1": ["v1"]}\<close>. The decoder converts the map of
  the event to an \<^verbatim>\<open>http.Header\<close> without canonicalising its keys, so the key of the
  decoded map is \<^verbatim>\<open>x-custom-header1\<close>, and \<^verbatim>\<open>Get\<close> and \<^verbatim>\<open>Values\<close>, which look up the
  canonical form \<^verbatim>\<open>X-Custom-Header1\<close> of the name they are given, find nothing in any
  letter-casing, the payload's own included. The Gateway-V2 and the Load-Balancer
  decoder build the map with \<^verbatim>\<open>Add\<close>, which stores the canonical key: there the same
  header is found in every casing.
\<close>

theorem C3_proxy_header_lookup:
  "UnmarshalRequest APIGatewayProxyEventProcessor
      (proxyPayload (zeroProxyRequest
         \<lparr>APIGatewayProxyRequest.MultiValueHeaders := Some [(''x-custom-header1'', [''v1''])]\<rparr>)) =
     Inr \<lparr>Method = [], RawPath = [], Request.Path = None, Query = None,
          Header = Some [(''x-custom-header1'', [''v1''])],
          Request.Body = [],
          Event = ProxyEvent (zeroProxyRequest
            \<lparr>APIGatewayProxyRequest.MultiValueHeaders :=
               Some [(''x-custom-header1'', [''v1''])]\<rparr>)\<rparr>
   \<and> Header_Get (entries (Some [(''x-custom-header1'', [''v1''])])) ''x-custom-header1'' = []
   \<and> Header_Get (entries (Some [(''x-custom-header1'', [''v1''])])) ''X-Custom-Header1'' = []
   \<and> Header_Values (entries (Some [(''x-custom-header1'', [''v1''])])) ''X-CUSTOM-HEADER1'' = []
   \<and> UnmarshalRequest APIGatewayV2HTTPEventProcessor
      (v2Payload (zeroV2Request
         \<lparr>APIGatewayV2HTTPRequest.Headers := Some [(''x-custom-header1'', ''v1'')]\<rparr>)) =
     Inr \<lparr>Method = [], RawPath = [], Request.Path = None, Query = Some [],
          Header = Some [(''X-Custom-Header1'', [''v1''])],
          Request.Body = [],
          Event = V2Event (zeroV2Request
            \<lparr>APIGatewayV2HTTPRequest.Headers := Some [(''x-custom-header1'', ''v1'')]\<rparr>)\<rparr>
   \<and> UnmarshalRequest ALBTargetGroupEventProcessor
      (albPayload (zeroALBRequest
         \<lparr>ALBTargetGroupRequest.MultiValueHeaders :=
            Some [(''x-custom-header1'', [''v1''])]\<rparr>)) =
     Inr \<lparr>Method = [], RawPath = [], Request.Path = Some [], Query = Some [],
          Header = Some [(''X-Custom-Header1'', [''v1''])],
          Request.Body = [],
          Event = ALBEvent (zeroALBRequest
            \<lparr>ALBTargetGroupRequest.MultiValueHeaders :=
               Some [(''x-custom-header1'', [''v1''])]\<rparr>)\<rparr>
   \<and> Header_Get (entries (Some [(''X-Custom-Header1'', [''v1''])])) ''x-custom-header1'' = ''v1''
   \<and> Header_Get (entries (Some [(''X-Custom-Header1'', [''v1''])])) ''X-Custom-Header1'' = ''v1''
   \<and> Header_Values (entries (Some [(''X-Custom-Header1'', [''v1''])])) ''X-CUSTOM-HEADER1'' =
       [''v1'']"
  by code_simp

text \<open>
  In general, on a header map built by \<^verbatim>\<open>mergeMaps\<close> with \<^verbatim>\<open>Add\<close> (the Gateway-V2
  and the Load-Balancer decoder), \<^verbatim>\<open>Values\<close> returns for a name the values that the
  payload carries under every key with the same canonical form.
\<close>

lemma Header_Values_mergeMaps:
  "Header_Values (mergeMaps sv mv Header_Add []) name =
     singleValues CanonicalMIMEHeaderKey sv (CanonicalMIMEHeaderKey name) @
     multiValues CanonicalMIMEHeaderKey mv (CanonicalMIMEHeaderKey name)"
  by (simp add: Header_Values_def index_values_mergeMaps_Header singleValues_def
      multiValues_def)

text \<open>
  What \<^verbatim>\<open>reduceHeaders\<close> computes: the keys of the header map, each with the value that
  \<^verbatim>\<open>Get\<close> returns for it, which is the first value of the \<^emph>\<open>canonical form\<close> of the key,
  or the empty string.
\<close>

lemma map_of_fold_update:
  "map_of (fold (\<lambda>(k, vs) m. AList.update k (g k) m) al m0) k =
     (if k \<in> fst ` set al then Some (g k) else map_of m0 k)"
  by (induction al arbitrary: m0) (auto simp: update_conv' split: prod.split)

lemma map_of_reduceHeaders:
  "map_of (reduceHeaders h) k = (if k \<in> fst ` set h then Some (Header_Get h k) else None)"
  unfolding reduceHeaders_def
  using map_of_fold_update [where g = "Header_Get h" and al = h and ?m0.0 = "[]" and k = k]
  by simp

text \<open>
  For a key in canonical form the value is the first of the key's own list (the empty
  string when the list is empty).
\<close>

lemma map_of_reduceHeaders_canonical:
  assumes "map_of h k = Some vs" and "CanonicalMIMEHeaderKey k = k"
  shows "map_of (reduceHeaders h) k = Some (case vs of [] \<Rightarrow> [] | v # _ \<Rightarrow> v)"
proof -
  from assms(1) have "k \<in> fst ` set h"
    by (metis domI dom_map_of_conv_image_fst)
  with assms show ?thesis
    by (simp add: map_of_reduceHeaders Header_Get_def index_values_def)
qed

text \<open>
  C6 at a failing input. The response holds the header \<^verbatim>\<open>x-request-id: abc\<close> under a key
  that is not in canonical form (a handler wrote \<^verbatim>\<open>Headers["x-request-id"]\<close>, or copied
  the headers of a Gateway-Proxy request). The multi-value map of the encoded response
  holds the key with its list; the single-value map holds the key with the empty string,
  not with the first value of its list, because \<^verbatim>\<open>reduceHeaders\<close> reads the value
  through \<^verbatim>\<open>Get\<close>, which looks up \<^verbatim>\<open>X-Request-Id\<close>. All three processors share the
  function. For a key in canonical form, as in the tests, the single-value map holds the
  first value.
\<close>

theorem C6_reduceHeaders_noncanonical_key:
  "MarshalResponse APIGatewayProxyEventProcessor
      \<lparr>Response.StatusCode = 200, Response.Headers = [(''x-request-id'', [''abc''])],
       Response.Body = []\<rparr> =
     Inr (ProxyResponse
       \<lparr>APIGatewayProxyResponse.StatusCode = 200,
        APIGatewayProxyResponse.Headers = [(''x-request-id'', [])],
        APIGatewayProxyResponse.MultiValueHeaders = [(''x-request-id'', [''abc''])],
        APIGatewayProxyResponse.Body = [],
        APIGatewayProxyResponse.IsBase64Encoded = False\<rparr>)
   \<and> MarshalResponse APIGatewayV2HTTPEventProcessor
      \<lparr>Response.StatusCode = 200, Response.Headers = [(''x-request-id'', [''abc''])],
       Response.Body = []\<rparr> =
     Inr (V2Response
       \<lparr>APIGatewayV2HTTPResponse.StatusCode = 200,
        APIGatewayV2HTTPResponse.Headers = [(''x-request-id'', [])],
        APIGatewayV2HTTPResponse.MultiValueHeaders = [(''x-request-id'', [''abc''])],
        APIGatewayV2HTTPResponse.Body = [],
        APIGatewayV2HTTPResponse.IsBase64Encoded = False,
        Cookies = []\<rparr>)
   \<and> MarshalResponse ALBTargetGroupEventProcessor
      \<lparr>Response.StatusCode = 200, Response.Headers = [(''x-request-id'', [''abc''])],
       Response.Body = []\<rparr> =
     Inr (ALBResponse
       \<lparr>ALBTargetGroupResponse.StatusCode = 200,
        StatusDescription = ''OK'',
        ALBTargetGroupResponse.Headers = [(''x-request-id'', [])],
        ALBTargetGroupResponse.MultiValueHeaders = [(''x-request-id'', [''abc''])],
        ALBTargetGroupResponse.Body = [],
        ALBTargetGroupResponse.IsBase64Encoded = False\<rparr>)
   \<and> MarshalResponse APIGatewayProxyEventProcessor
      \<lparr>Response.StatusCode = 200,
       Response.Headers = [(''X-Custom-Header1'', [''v1'']), (''X-Custom-Header2'', [''v2'', ''v3''])],
       Response.Body = ''body''\<rparr> =
     Inr (ProxyResponse
       \<lparr>APIGatewayProxyResponse.StatusCode = 200,
        APIGatewayProxyResponse.Headers =
          [(''X-Custom-Header1'', ''v1''), (''X-Custom-Header2'', ''v2'')],
        APIGatewayProxyResponse.MultiValueHeaders =
          [(''X-Custom-Header1'', [''v1'']), (''X-Custom-Header2'', [''v2'', ''v3''])],
        APIGatewayProxyResponse.Body = ''body'',
        APIGatewayProxyResponse.IsBase64Encoded = False\<rparr>)"
  by code_simp

end
